theory Spec2Isabelle
  imports Complex_Main "HOL-Library.Log_Nat"
begin

section \<open>The x402 payment gatekeeper: data model\<close>

text \<open>
  This theory embeds \<^verbatim>\<open>src/core/payment-processor.ts\<close> (class \<^verbatim>\<open>PaymentProcessor\<close>)
  and the HTTP adapter of \<^verbatim>\<open>src/http/payment-plugin.ts\<close> (\<^verbatim>\<open>createPaymentPlugin\<close>,
  \<^verbatim>\<open>ensurePayment\<close> and the \<^verbatim>\<open>settle\<close> closure it returns).

  The functions imported from the packages \<^verbatim>\<open>x402\<close> and \<^verbatim>\<open>viem\<close> and the facilitator
  client are not part of the repository. They are parameters of the model: a record of
  library functions and a record with the two facilitator capabilities. A JavaScript
  \<^verbatim>\<open>throw\<close> is the left injection of a sum, an optional field is an \<open>option\<close>.
  Everything the code does to the outside (a facilitator call, a callback, a timer) is
  appended to a log of events that every effectful function takes and returns.
\<close>

subsection \<open>JavaScript numbers\<close>

text \<open>
  A JavaScript number is an IEEE 754 double: a finite value, \<^verbatim>\<open>NaN\<close> or an
  infinity. A finite value is kept as the rational it denotes (the sign of zero is
  dropped). The result of an addition or a multiplication of finite values is rounded
  to the nearest double, ties to the even significand, by \<open>fl\<close>: 53 bits of
  significand, exponents from \<open>-1022\<close> (subnormal numbers below) to \<open>1023\<close>,
  overflow to an infinity.
\<close>

datatype number = Num rat | NaN | PosInf | NegInf

definition round_half_even :: "rat \<Rightarrow> int" where
  "round_half_even x =
     (let f = \<lfloor>x\<rfloor>; r = x - of_int f
      in if r < 1 / 2 then f else if 1 / 2 < r then f + 1 else if even f then f else f + 1)"

text \<open>For \<open>a > 0\<close>, the exponent \<open>e\<close> with \<open>2 ^ e \<le> a < 2 ^ (e + 1)\<close>.\<close>

definition floor_log2 :: "rat \<Rightarrow> int" where
  "floor_log2 a = (if 1 \<le> a then bitlen \<lfloor>a\<rfloor> - 1 else - bitlen (\<lceil>1 / a\<rceil> - 1))"

definition fl :: "rat \<Rightarrow> number" where
  "fl q =
     (if q = 0 then Num 0
      else
        let a = \<bar>q\<bar>;
            e = max (floor_log2 a) (- 1022);
            u = 2 powi (e - 52);
            v = of_int (round_half_even (a / u)) * u
        in if 2 powi 1024 \<le> v then (if 0 < q then PosInf else NegInf)
           else Num (if 0 < q then v else - v))"

text \<open>\<^verbatim>\<open>x + y\<close>, \<^verbatim>\<open>x * y\<close>, \<^verbatim>\<open>x <= y\<close> and \<^verbatim>\<open>x === y\<close> on numbers.\<close>

fun js_add :: "number \<Rightarrow> number \<Rightarrow> number" where
  "js_add (Num a) (Num b) = fl (a + b)"
| "js_add NaN y = NaN"
| "js_add x NaN = NaN"
| "js_add PosInf NegInf = NaN"
| "js_add NegInf PosInf = NaN"
| "js_add PosInf y = PosInf"
| "js_add x PosInf = PosInf"
| "js_add NegInf y = NegInf"
| "js_add x NegInf = NegInf"

fun js_mul :: "number \<Rightarrow> number \<Rightarrow> number" where
  "js_mul (Num a) (Num b) = fl (a * b)"
| "js_mul NaN y = NaN"
| "js_mul x NaN = NaN"
| "js_mul PosInf (Num b) = (if b = 0 then NaN else if 0 < b then PosInf else NegInf)"
| "js_mul NegInf (Num b) = (if b = 0 then NaN else if 0 < b then NegInf else PosInf)"
| "js_mul (Num a) PosInf = (if a = 0 then NaN else if 0 < a then PosInf else NegInf)"
| "js_mul (Num a) NegInf = (if a = 0 then NaN else if 0 < a then NegInf else PosInf)"
| "js_mul PosInf PosInf = PosInf"
| "js_mul PosInf NegInf = NegInf"
| "js_mul NegInf PosInf = NegInf"
| "js_mul NegInf NegInf = PosInf"

fun js_le :: "number \<Rightarrow> number \<Rightarrow> bool" where
  "js_le (Num a) (Num b) = (a \<le> b)"
| "js_le NaN y = False"
| "js_le x NaN = False"
| "js_le NegInf y = True"
| "js_le x PosInf = True"
| "js_le PosInf y = False"
| "js_le x NegInf = False"

definition js_strict_eq :: "number \<Rightarrow> number \<Rightarrow> bool" where
  "js_strict_eq x y = (x = y \<and> x \<noteq> NaN)"

subsection \<open>Thrown values and JavaScript helpers\<close>

text \<open>A thrown value is an \<^verbatim>\<open>Error\<close> object with its message, or anything else.\<close>

datatype thrown = JsError string | JsOther

text \<open>\<^verbatim>\<open>error instanceof Error ? error.message : dflt\<close>\<close>

fun message_or :: "thrown \<Rightarrow> string \<Rightarrow> string" where
  "message_or (JsError m) dflt = m"
| "message_or JsOther dflt = dflt"

text \<open>\<^verbatim>\<open>a || dflt\<close> on an optional string: undefined and the empty string are falsy.\<close>

fun or_else :: "string option \<Rightarrow> string \<Rightarrow> string" where
  "or_else None dflt = dflt"
| "or_else (Some s) dflt = (if s = [] then dflt else s)"

text \<open>\<^verbatim>\<open>a ?? dflt\<close>: only undefined is replaced.\<close>

fun nullish :: "'a option \<Rightarrow> 'a \<Rightarrow> 'a" where
  "nullish None dflt = dflt"
| "nullish (Some a) dflt = a"

text \<open>
  ASCII case mapping, for \<^verbatim>\<open>String.prototype.toUpperCase\<close> on the request method and
  for the case-insensitive names of \<^verbatim>\<open>Headers\<close>.
\<close>

definition upper_char :: "char \<Rightarrow> char" where
  "upper_char c =
     (case map_of (zip ''abcdefghijklmnopqrstuvwxyz'' ''ABCDEFGHIJKLMNOPQRSTUVWXYZ'') c of
        Some u \<Rightarrow> u
      | None \<Rightarrow> c)"

definition lower_char :: "char \<Rightarrow> char" where
  "lower_char c =
     (case map_of (zip ''ABCDEFGHIJKLMNOPQRSTUVWXYZ'' ''abcdefghijklmnopqrstuvwxyz'') c of
        Some u \<Rightarrow> u
      | None \<Rightarrow> c)"

definition toUpperCase :: "string \<Rightarrow> string" where
  "toUpperCase s = map upper_char s"

definition toLowerCase :: "string \<Rightarrow> string" where
  "toLowerCase s = map lower_char s"

subsection \<open>Types of the x402 protocol\<close>

text \<open>
  \<^verbatim>\<open>PaymentPayload\<close>: the decoded proof. Only \<^verbatim>\<open>x402Version\<close> is written by this code;
  the scheme-specific payload is opaque.
\<close>

record payment_payload =
  x402Version :: int
  p_scheme :: string
  p_network :: string
  p_payload :: string

text \<open>A schema value of \<^verbatim>\<open>outputSchema.input\<close>: a string or a boolean.\<close>

datatype schema_value = SStr string | SBool bool

record output_schema =
  os_input :: "string \<rightharpoonup> schema_value"
  os_output :: "string option"

text \<open>\<^verbatim>\<open>ERC20TokenAmount["asset"]\<close>, with \<^verbatim>\<open>eip712\<close> as a (name, version) pair.\<close>

record asset_info =
  address :: string
  decimals :: nat
  eip712 :: "(string \<times> string) option"

record payment_requirements =
  scheme :: string
  network :: string
  maxAmountRequired :: string
  resource :: string
  description :: string
  mimeType :: string
  payTo :: string
  maxTimeoutSeconds :: number
  asset :: string
  outputSchema :: output_schema
  extra :: "(string \<times> string) option"

text \<open>A price is \<^verbatim>\<open>string | number\<close>; the code hands it to the library unchanged.\<close>

datatype price = PriceString string | PriceNumber number

text \<open>The facilitator's answers (\<^verbatim>\<open>VerifyResponse\<close>, \<^verbatim>\<open>SettleResponse\<close>).\<close>

record payment_verification_result =
  isValid :: bool
  invalidReason :: "string option"
  v_payer :: "string option"

record settle_response =
  f_success :: bool
  f_transaction :: "string option"
  f_network :: "string option"
  f_payer :: "string option"

subsection \<open>Types of \<^verbatim>\<open>src/types\<close>\<close>

record settlement_result =
  success :: bool
  transaction :: "string option"
  s_network :: "string option"
  payer :: "string option"
  error :: "string option"

record payment_context =
  payment :: payment_payload
  requirements :: payment_requirements
  verification :: payment_verification_result

text \<open>\<^verbatim>\<open>PaymentError\<close>; \<^verbatim>\<open>details\<close> is only ever \<^verbatim>\<open>{ payer }\<close>, with \<^verbatim>\<open>payer\<close> optional.\<close>

record payment_error =
  code :: string
  message :: string
  details :: "string option option"

datatype payment_result =
    PaymentSuccess payment_context
  | PaymentFailure payment_error "payment_requirements list option"

text \<open>
  \<^verbatim>\<open>AsyncSettlementOptions\<close>. A callback is a function of the environment: it returns
  normally (\<open>None\<close>) or throws (\<open>Some e\<close>). \<^verbatim>\<open>maxRetries\<close> and \<^verbatim>\<open>retryDelay\<close> are
  JavaScript numbers: nothing makes them integers.
\<close>

record async_settlement_options =
  enabled :: bool
  maxRetries :: "number option"
  retryDelay :: "number option"
  onSettlementSuccess :: "(settlement_result \<Rightarrow> thrown option) option"
  onSettlementError :: "(thrown \<Rightarrow> thrown option) option"

record payment_server_config =
  recipient :: string
  c_network :: string

text \<open>\<^verbatim>\<open>PaymentMiddlewareConfig\<close>, the optional \<^verbatim>\<open>additionalConfig\<close>.\<close>

record error_messages =
  paymentRequired :: "string option"
  verificationFailed :: "string option"
  settlementFailed :: "string option"

record payment_middleware_config =
  m_description :: "string option"
  m_mimeType :: "string option"
  m_maxTimeoutSeconds :: "number option"
  m_discoverable :: "bool option"
  m_inputSchema :: "(string \<rightharpoonup> schema_value) option"
  m_outputSchema :: "string option"
  m_errorMessages :: "error_messages option"

subsection \<open>The imported functions and the facilitator\<close>

text \<open>
  The imports from \<^verbatim>\<open>x402/shared\<close>, \<^verbatim>\<open>x402/schemes\<close>, \<^verbatim>\<open>x402/types\<close> and \<^verbatim>\<open>viem\<close>.
  The price conversion, \<^verbatim>\<open>getAddress\<close> and the decoder may throw; the matching
  returns a requirement or \<^verbatim>\<open>undefined\<close>. \<^verbatim>\<open>processPriceToAtomicAmount\<close>, when it
  returns, returns \<^verbatim>\<open>{ error }\<close> (left) or \<^verbatim>\<open>{ maxAmountRequired, asset }\<close>
  (right).
\<close>

record x402_lib =
  processPriceToAtomicAmount ::
    "price \<Rightarrow> string \<Rightarrow> thrown + (string + (string \<times> asset_info))"
  SupportedEVMNetworks :: "string list"
  getAddress :: "string \<Rightarrow> thrown + string"
  decodePayment :: "string \<Rightarrow> thrown + payment_payload"
  findMatchingPaymentRequirements ::
    "payment_requirements list \<Rightarrow> payment_payload \<Rightarrow> payment_requirements option"

text \<open>
  The facilitator client of \<^verbatim>\<open>useFacilitator\<close>. Its answer may differ from one call to
  the next, so each capability also takes the number of earlier calls of that capability.
\<close>

record facilitator =
  verify ::
    "nat \<Rightarrow> payment_payload \<Rightarrow> payment_requirements \<Rightarrow> thrown + payment_verification_result"
  settle ::
    "nat \<Rightarrow> payment_payload \<Rightarrow> payment_requirements \<Rightarrow> thrown + settle_response"

text \<open>The \<^verbatim>\<open>PaymentProcessor\<close> instance: its three private fields and its imports.\<close>

record payment_processor =
  lib :: x402_lib
  config :: payment_server_config
  asyncSettlement :: "async_settlement_options option"
  fac :: facilitator

subsection \<open>The log of effects\<close>

datatype event =
    FacilitatorVerify payment_payload payment_requirements
  | FacilitatorSettle payment_payload payment_requirements
  | OnSettlementSuccess settlement_result
  | OnSettlementError thrown
  | SetTimeout number

type_synonym log = "event list"

fun is_verify :: "event \<Rightarrow> bool" where
  "is_verify (FacilitatorVerify p r) = True"
| "is_verify e = False"

fun is_settle :: "event \<Rightarrow> bool" where
  "is_settle (FacilitatorSettle p r) = True"
| "is_settle e = False"

fun is_success_callback :: "event \<Rightarrow> bool" where
  "is_success_callback (OnSettlementSuccess r) = True"
| "is_success_callback e = False"

fun is_error_callback :: "event \<Rightarrow> bool" where
  "is_error_callback (OnSettlementError e) = True"
| "is_error_callback e = False"

fun is_timeout :: "event \<Rightarrow> bool" where
  "is_timeout (SetTimeout d) = True"
| "is_timeout e = False"

definition verify_calls :: "log \<Rightarrow> nat" where
  "verify_calls l = length (filter is_verify l)"

definition settle_calls :: "log \<Rightarrow> nat" where
  "settle_calls l = length (filter is_settle l)"

definition success_callbacks :: "log \<Rightarrow> nat" where
  "success_callbacks l = length (filter is_success_callback l)"

definition error_callbacks :: "log \<Rightarrow> nat" where
  "error_callbacks l = length (filter is_error_callback l)"

section \<open>\<^verbatim>\<open>PaymentProcessor\<close>\<close>

definition X402_VERSION :: int where
  "X402_VERSION = 1"

subsection \<open>\<^verbatim>\<open>createPaymentRequirements\<close>\<close>

text \<open>
  The request, as far as the code reads it (\<open>req_method\<close> is
  \<^verbatim>\<open>request.method\<close>). \<^verbatim>\<open>Headers\<close> stores names in lower case, so
  \<^verbatim>\<open>headers.get\<close> looks the lower-cased name up. \<open>with_header\<close> is a header
  table with one entry replaced; \<^verbatim>\<open>headers.set\<close> on a response is
  \<open>response_headers_set\<close> below, which may throw.
\<close>

record request =
  url :: string
  req_method :: string
  req_headers :: "string \<rightharpoonup> string"

definition headers_get :: "(string \<rightharpoonup> 'v) \<Rightarrow> string \<Rightarrow> 'v option" where
  "headers_get h name = h (toLowerCase name)"

definition with_header :: "(string \<rightharpoonup> 'v) \<Rightarrow> string \<Rightarrow> 'v \<Rightarrow> (string \<rightharpoonup> 'v)" where
  "with_header h name v = h(toLowerCase name \<mapsto> v)"

text \<open>
  The result is the requirement, a \<^verbatim>\<open>PaymentFailure\<close> without requirements, or an
  exception of \<^verbatim>\<open>processPriceToAtomicAmount\<close> or \<^verbatim>\<open>getAddress\<close>, which the function
  does not catch. The price is converted first, the network is checked
  second, as in the source. \<^verbatim>\<open>resource || request.url\<close> takes the URL for an absent or
  empty resource; the spread of \<^verbatim>\<open>inputSchema\<close> overrides the three fixed keys.
\<close>

datatype requirements_or_failure =
    Requirement payment_requirements
  | Failure payment_error

definition createPaymentRequirements ::
  "payment_processor \<Rightarrow> request \<Rightarrow> price \<Rightarrow> string option \<Rightarrow>
   payment_middleware_config option \<Rightarrow> thrown + requirements_or_failure" where
  "createPaymentRequirements this req price res additionalConfig =
     (case processPriceToAtomicAmount (lib this) price (c_network (config this)) of
        Inl e \<Rightarrow> Inl e
      | Inr (Inl err) \<Rightarrow>
          Inr (Failure \<lparr>code = ''PRICE_PROCESSING_ERROR'', message = err, details = None\<rparr>)
      | Inr (Inr (maxAmount, asset_v)) \<Rightarrow>
          if c_network (config this) \<notin> set (SupportedEVMNetworks (lib this)) then
            Inr (Failure \<lparr>code = ''UNSUPPORTED_NETWORK'',
                          message = ''Unsupported network: '' @ c_network (config this),
                          details = None\<rparr>)
          else
            let resourceUrl = or_else res (url req);
                method_v = toUpperCase (req_method req)
            in case getAddress (lib this) (recipient (config this)) of
                 Inl e \<Rightarrow> Inl e
               | Inr payTo_v \<Rightarrow>
                   (case getAddress (lib this) (address asset_v) of
                      Inl e \<Rightarrow> Inl e
                    | Inr asset_addr \<Rightarrow>
                        Inr (Requirement
                          \<lparr>scheme = ''exact'',
                           network = c_network (config this),
                           maxAmountRequired = maxAmount,
                           resource = resourceUrl,
                           description =
                             nullish (Option.bind additionalConfig m_description) [],
                           mimeType =
                             nullish (Option.bind additionalConfig m_mimeType)
                               ''application/json'',
                           payTo = payTo_v,
                           maxTimeoutSeconds =
                             nullish (Option.bind additionalConfig m_maxTimeoutSeconds)
                               (Num 300),
                           asset = asset_addr,
                           outputSchema =
                             \<lparr>os_input =
                                [''type'' \<mapsto> SStr ''http'',
                                 ''method'' \<mapsto> SStr method_v,
                                 ''discoverable'' \<mapsto>
                                   SBool (nullish (Option.bind additionalConfig m_discoverable)
                                            True)]
                                ++ nullish (Option.bind additionalConfig m_inputSchema)
                                     Map.empty,
                              os_output = Option.bind additionalConfig m_outputSchema\<rparr>,
                           extra = eip712 asset_v\<rparr>)))"

subsection \<open>\<^verbatim>\<open>verifyPayment\<close>\<close>

text \<open>
  The decoded payload gets \<^verbatim>\<open>x402Version = X402_VERSION\<close> inside the first
  \<^verbatim>\<open>try\<close>; matching and the facilitator see the updated payload. The second
  \<^verbatim>\<open>try\<close> turns an exception of \<^verbatim>\<open>facilitator.verify\<close> into
  \<^verbatim>\<open>VERIFICATION_ERROR\<close>.
\<close>

definition verifyPayment ::
  "payment_processor \<Rightarrow> string \<Rightarrow> payment_requirements \<Rightarrow> log \<Rightarrow> payment_result \<times> log" where
  "verifyPayment this paymentData reqs l =
     (case decodePayment (lib this) paymentData of
        Inl e \<Rightarrow>
          (PaymentFailure
             \<lparr>code = ''INVALID_PAYMENT'', message = message_or e ''Invalid payment'',
              details = None\<rparr>
             (Some [reqs]), l)
      | Inr decoded \<Rightarrow>
          let decodedPayment = decoded\<lparr>x402Version := X402_VERSION\<rparr> in
          (case findMatchingPaymentRequirements (lib this) [reqs] decodedPayment of
             None \<Rightarrow>
               (PaymentFailure
                  \<lparr>code = ''NO_MATCHING_REQUIREMENTS'',
                   message = ''Unable to find matching payment requirements'',
                   details = None\<rparr>
                  (Some [reqs]), l)
           | Some selectedRequirement \<Rightarrow>
               let l' = l @ [FacilitatorVerify decodedPayment selectedRequirement] in
               (case verify (fac this) (verify_calls l) decodedPayment selectedRequirement of
                  Inl e \<Rightarrow>
                    (PaymentFailure
                       \<lparr>code = ''VERIFICATION_ERROR'',
                        message = message_or e ''Verification failed'', details = None\<rparr>
                       (Some [reqs]), l')
                | Inr verification_v \<Rightarrow>
                    if \<not> isValid verification_v then
                      (PaymentFailure
                         \<lparr>code = ''VERIFICATION_FAILED'',
                          message =
                            or_else (invalidReason verification_v)
                              ''Payment verification failed'',
                          details = Some (v_payer verification_v)\<rparr>
                         (Some [reqs]), l')
                    else
                      (PaymentSuccess
                         \<lparr>payment = decodedPayment, requirements = selectedRequirement,
                          verification = verification_v\<rparr>, l'))))"

subsection \<open>\<^verbatim>\<open>settlePayment\<close>: one synchronous attempt\<close>

text \<open>
  One call of \<^verbatim>\<open>facilitator.settle\<close>; an exception becomes a result with
  \<^verbatim>\<open>success: false\<close> and the message. The promise never rejects, the type keeps the
  possibility because the callers wrap the call in \<^verbatim>\<open>try\<close>.
\<close>

definition settlePayment ::
  "payment_processor \<Rightarrow> payment_context \<Rightarrow> log \<Rightarrow> (thrown + settlement_result) \<times> log" where
  "settlePayment this context l =
     (let l' = l @ [FacilitatorSettle (payment context) (requirements context)] in
      case settle (fac this) (settle_calls l) (payment context) (requirements context) of
        Inr settlement \<Rightarrow>
          (Inr \<lparr>success = f_success settlement, transaction = f_transaction settlement,
                s_network = f_network settlement, payer = f_payer settlement,
                error = None\<rparr>, l')
      | Inl e \<Rightarrow>
          (Inr \<lparr>success = False, transaction = None, s_network = None, payer = None,
                error = Some (message_or e ''Settlement failed'')\<rparr>, l'))"

subsection \<open>Responses\<close>

text \<open>
  A value handed to \<^verbatim>\<open>JSON.stringify\<close> is an object, a map from keys to values; the
  spread \<^verbatim>\<open>...additional\<close> is map addition. A header value is a plain string or
  \<^verbatim>\<open>safeBase64Encode(JSON.stringify(obj))\<close>, kept as the object.
\<close>

datatype jval =
    JString string
  | JNumber int
  | JBool bool
  | JUndefined
  | JRequirements "payment_requirements list"

type_synonym jobject = "string \<rightharpoonup> jval"

fun jopt :: "string option \<Rightarrow> jval" where
  "jopt None = JUndefined"
| "jopt (Some s) = JString s"

datatype header_value = Plain string | Base64Json jobject

datatype body = Stringify jobject | Text string

text \<open>
  The headers of a response are mutable when the handler constructed it with
  \<^verbatim>\<open>new Response\<close>; those of a response that came from \<^verbatim>\<open>fetch\<close>,
  \<^verbatim>\<open>Response.redirect\<close> or \<^verbatim>\<open>Response.error\<close> are immutable, and
  \<^verbatim>\<open>headers.set\<close> on them throws a \<^verbatim>\<open>TypeError\<close> (its message is the runtime's).
\<close>

record response =
  status :: int
  headers :: "string \<rightharpoonup> header_value"
  immutable :: bool
  body :: body

definition immutable_headers :: thrown where
  "immutable_headers = JsError ''immutable''"

definition response_headers_set :: "response \<Rightarrow> string \<Rightarrow> header_value \<Rightarrow> thrown + response" where
  "response_headers_set resp name v =
     (if immutable resp then Inl immutable_headers
      else Inr (resp\<lparr>headers := with_header (headers resp) name v\<rparr>))"

subsection \<open>\<^verbatim>\<open>addSettlementHeaders\<close>\<close>

definition addSettlementHeaders :: "response \<Rightarrow> settlement_result \<Rightarrow> thrown + response" where
  "addSettlementHeaders resp settlement =
     (if success settlement then
        response_headers_set resp ''X-Payment-Response''
          (Base64Json
             [''success'' \<mapsto> JBool True,
              ''transaction'' \<mapsto> jopt (transaction settlement),
              ''network'' \<mapsto> jopt (s_network settlement),
              ''payer'' \<mapsto> jopt (payer settlement)])
      else
        response_headers_set resp ''X-Payment-Error''
          (Base64Json
             [''success'' \<mapsto> JBool False,
              ''error'' \<mapsto> jopt (error settlement)]))"

subsection \<open>\<^verbatim>\<open>settlePaymentInBackground\<close>: the retry loop\<close>

text \<open>
  The body of the \<^verbatim>\<open>try\<close> block of one iteration. \<open>None\<close>: the function returned
  (the attempt succeeded and the success callback, if any, returned). \<open>Some e\<close>: the
  \<^verbatim>\<open>catch\<close> block receives \<open>e\<close>, which is the error of a failed attempt or whatever
  the success callback threw.
\<close>

definition try_settle :: "payment_processor \<Rightarrow> payment_context \<Rightarrow> log \<Rightarrow> thrown option \<times> log" where
  "try_settle this context l =
     (case settlePayment this context l of
        (Inl e, l1) \<Rightarrow> (Some e, l1)
      | (Inr settlementResult, l1) \<Rightarrow>
          if success settlementResult then
            (case Option.bind (asyncSettlement this) onSettlementSuccess of
               None \<Rightarrow> (None, l1)
             | Some cb \<Rightarrow> (cb settlementResult, l1 @ [OnSettlementSuccess settlementResult]))
          else (Some (JsError (or_else (error settlementResult) ''Settlement failed'')), l1))"

text \<open>
  The \<^verbatim>\<open>for\<close> loop from \<open>attempt\<close> on. The counter and the bound are numbers:
  the loop condition is \<^verbatim>\<open>attempt <= maxRetries\<close>, the last attempt is recognised by
  \<^verbatim>\<open>attempt === maxRetries\<close>, the wait is \<^verbatim>\<open>retryDelay * attempt\<close> and the step is
  \<^verbatim>\<open>attempt++\<close>, each in double arithmetic. The wait before the next attempt is the
  \<^verbatim>\<open>setTimeout\<close> event with the delay handed to the timer. The loop need not end
  (an infinite bound, or a counter that no longer grows): the result is \<open>None\<close> when it
  does not, and \<open>Some\<close> of the outcome and the log when it does. The outcome is
  \<open>None\<close> when the promise resolves and \<open>Some e\<close> when the error callback threw
  \<open>e\<close> (nothing handles that rejection).
\<close>

partial_function (option) settlePaymentInBackground_loop ::
  "payment_processor \<Rightarrow> payment_context \<Rightarrow> number \<Rightarrow> number \<Rightarrow> number \<Rightarrow> log \<Rightarrow>
   (thrown option \<times> log) option" where
  "settlePaymentInBackground_loop this context maxRetries_v retryDelay_v attempt l =
     (if js_le attempt maxRetries_v then
        (case try_settle this context l of
           (None, l1) \<Rightarrow> Some (None, l1)
         | (Some e, l1) \<Rightarrow>
             if js_strict_eq attempt maxRetries_v then
               (case Option.bind (asyncSettlement this) onSettlementError of
                  None \<Rightarrow> Some (None, l1)
                | Some cb \<Rightarrow> Some (cb e, l1 @ [OnSettlementError e]))
             else
               settlePaymentInBackground_loop this context maxRetries_v retryDelay_v
                 (js_add attempt (Num 1)) (l1 @ [SetTimeout (js_mul retryDelay_v attempt)]))
      else Some (None, l))"

definition settlePaymentInBackground ::
  "payment_processor \<Rightarrow> payment_context \<Rightarrow> log \<Rightarrow> (thrown option \<times> log) option" where
  "settlePaymentInBackground this context l =
     (let maxRetries_v = nullish (Option.bind (asyncSettlement this) maxRetries) (Num 3);
          retryDelay_v = nullish (Option.bind (asyncSettlement this) retryDelay) (Num 1000)
      in settlePaymentInBackground_loop this context maxRetries_v retryDelay_v (Num 1) l)"

subsection \<open>\<^verbatim>\<open>settlePaymentAsync\<close>\<close>

text \<open>
  With \<^verbatim>\<open>asyncSettlement?.enabled\<close> falsy: one synchronous attempt, then the headers.
  Otherwise the background task is started and not awaited, and the pending marker is
  set. The events of the background task are appended to the same log; when they happen
  relative to the delivery of the response is not part of the model. The log is
  \<open>None\<close> when the background task never ends. Setting a header of a response with
  immutable headers throws, and the promise rejects.
\<close>

definition async_enabled :: "payment_processor \<Rightarrow> bool" where
  "async_enabled this = (case asyncSettlement this of None \<Rightarrow> False | Some a \<Rightarrow> enabled a)"

definition settlePaymentAsync ::
  "payment_processor \<Rightarrow> payment_context \<Rightarrow> response \<Rightarrow> log \<Rightarrow>
   (thrown + response) \<times> log option" where
  "settlePaymentAsync this context resp l =
     (if \<not> async_enabled this then
        (case settlePayment this context l of
           (Inl e, l1) \<Rightarrow> (Inl e, Some l1)
         | (Inr settlementResult, l1) \<Rightarrow>
             (addSettlementHeaders resp settlementResult, Some l1))
      else
        (let background = settlePaymentInBackground this context l in
         (response_headers_set resp ''X-Payment-Status''
            (Base64Json [''status'' \<mapsto> JString ''pending_settlement'']),
          map_option snd background)))"

section \<open>The HTTP adapter: \<^verbatim>\<open>createPaymentPlugin\<close>\<close>

definition X_PAYMENT_HEADER :: string where
  "X_PAYMENT_HEADER = ''X-PAYMENT''"

definition X_PAYMENT_RESPONSE_HEADER :: string where
  "X_PAYMENT_RESPONSE_HEADER = ''X-PAYMENT-RESPONSE''"

definition JSON_CONTENT_TYPE :: "string \<rightharpoonup> header_value" where
  "JSON_CONTENT_TYPE = with_header Map.empty ''Content-Type'' (Plain ''application/json'')"

definition buildPaymentRequiredResponse :: "string \<Rightarrow> jval \<Rightarrow> jobject option \<Rightarrow> response" where
  "buildPaymentRequiredResponse err accepts additional =
     \<lparr>status = 402, headers = JSON_CONTENT_TYPE, immutable = False,
      body = Stringify
        ([''x402Version'' \<mapsto> JNumber X402_VERSION, ''error'' \<mapsto> JString err,
          ''accepts'' \<mapsto> accepts] ++ nullish additional Map.empty)\<rparr>"

record payment_plugin_options =
  plugin_facilitator :: facilitator
  plugin_asyncSettlement :: "async_settlement_options option"

record ensure_payment_config =
  e_payTo :: string
  e_price :: price
  e_network :: string
  e_config :: "payment_middleware_config option"
  e_resource :: "string option"
  e_method :: "string option"

record payment_settlement_result =
  ok :: bool
  response :: response

datatype ensure_payment_result =
    PaymentFailureResult response
  | PaymentSuccessResult payment_payload payment_requirements
      "response \<Rightarrow> log \<Rightarrow> payment_settlement_result \<times> log option"

text \<open>
  The processor of the plugin. Its recipient is the empty string and its network is
  \<^verbatim>\<open>"base"\<close>; \<^verbatim>\<open>ensurePayment\<close> reads neither \<^verbatim>\<open>payTo\<close> nor \<^verbatim>\<open>network\<close> of its
  configuration.
\<close>

definition paymentProcessor :: "x402_lib \<Rightarrow> payment_plugin_options \<Rightarrow> payment_processor" where
  "paymentProcessor L options =
     \<lparr>lib = L, config = \<lparr>recipient = [], c_network = ''base''\<rparr>,
      asyncSettlement = plugin_asyncSettlement options,
      fac = plugin_facilitator options\<rparr>"

text \<open>
  The closure \<^verbatim>\<open>settlePayment\<close> of \<^verbatim>\<open>ensurePayment\<close>, with the variables it captures
  as arguments. The response object is mutated in place by the source, so the outcome
  carries the updated response. Both \<^verbatim>\<open>try\<close> blocks catch whatever is thrown inside:
  a rejection of the awaited promise or the \<^verbatim>\<open>TypeError\<close> of \<^verbatim>\<open>headers.set\<close>.
\<close>

definition settle_closure ::
  "x402_lib \<Rightarrow> payment_plugin_options \<Rightarrow> error_messages \<Rightarrow> payment_requirements list \<Rightarrow>
   payment_context \<Rightarrow> response \<Rightarrow> log \<Rightarrow> payment_settlement_result \<times> log option" where
  "settle_closure L options errorMessages paymentRequirements context resp l =
     (if status resp \<ge> 400 then (\<lparr>ok = True, response = resp\<rparr>, Some l)
      else if (case plugin_asyncSettlement options of None \<Rightarrow> False | Some a \<Rightarrow> enabled a) then
        (case settlePaymentAsync (paymentProcessor L options) context resp l of
           (Inr resp', l1) \<Rightarrow> (\<lparr>ok = True, response = resp'\<rparr>, l1)
         | (Inl e, l1) \<Rightarrow>
             (\<lparr>ok = False,
               response = buildPaymentRequiredResponse
                 (or_else (settlementFailed errorMessages) (message_or e ''Settlement failed''))
                 (JRequirements paymentRequirements) None\<rparr>, l1))
      else
        (case settlePayment (paymentProcessor L options) context l of
           (Inr settlement, l1) \<Rightarrow>
             if success settlement then
               (case response_headers_set resp X_PAYMENT_RESPONSE_HEADER
                       (Base64Json
                          [''success'' \<mapsto> JBool True,
                           ''transaction'' \<mapsto> jopt (transaction settlement),
                           ''network'' \<mapsto> jopt (s_network settlement),
                           ''payer'' \<mapsto> jopt (payer settlement)]) of
                  Inr resp' \<Rightarrow> (\<lparr>ok = True, response = resp'\<rparr>, Some l1)
                | Inl e \<Rightarrow>
                    (\<lparr>ok = False,
                      response = buildPaymentRequiredResponse
                        (or_else (settlementFailed errorMessages)
                           (message_or e ''Settlement failed''))
                        (JRequirements paymentRequirements) None\<rparr>, Some l1))
             else (\<lparr>ok = True, response = resp\<rparr>, Some l1)
         | (Inl e, l1) \<Rightarrow>
             (\<lparr>ok = False,
               response = buildPaymentRequiredResponse
                 (or_else (settlementFailed errorMessages) (message_or e ''Settlement failed''))
                 (JRequirements paymentRequirements) None\<rparr>, Some l1)))"

definition no_config :: payment_middleware_config where
  "no_config =
     \<lparr>m_description = None, m_mimeType = None, m_maxTimeoutSeconds = None,
      m_discoverable = None, m_inputSchema = None, m_outputSchema = None,
      m_errorMessages = None\<rparr>"

definition no_messages :: error_messages where
  "no_messages = \<lparr>paymentRequired = None, verificationFailed = None, settlementFailed = None\<rparr>"

text \<open>
  \<^verbatim>\<open>ensurePayment\<close>. An exception of \<^verbatim>\<open>createPaymentRequirements\<close> is not caught: the
  promise rejects. An absent and an empty \<^verbatim>\<open>X-PAYMENT\<close> header are both falsy. A
  rejection and a failure result leave the log as it is; an admission returns the
  closure.
\<close>

definition ensurePayment ::
  "x402_lib \<Rightarrow> payment_plugin_options \<Rightarrow> request \<Rightarrow> ensure_payment_config \<Rightarrow> log \<Rightarrow>
   (thrown + ensure_payment_result) \<times> log" where
  "ensurePayment L options req cfg l =
     (case createPaymentRequirements (paymentProcessor L options) req (e_price cfg)
             (e_resource cfg) (Some (nullish (e_config cfg) no_config)) of
        Inl e \<Rightarrow> (Inl e, l)
      | Inr (Failure err) \<Rightarrow>
          (Inr (PaymentFailureResult
             \<lparr>status = 500, headers = JSON_CONTENT_TYPE, immutable = False,
              body = Stringify
                [''x402Version'' \<mapsto> JNumber X402_VERSION,
                 ''error'' \<mapsto> JString (message err),
                 ''code'' \<mapsto> JString (code err)]\<rparr>), l)
      | Inr (Requirement reqs) \<Rightarrow>
          let paymentRequirements = [reqs];
              errorMessages = nullish (Option.bind (e_config cfg) m_errorMessages) no_messages
          in case headers_get (req_headers req) X_PAYMENT_HEADER of
               None \<Rightarrow>
                 (Inr (PaymentFailureResult
                    (buildPaymentRequiredResponse
                       (or_else (paymentRequired errorMessages)
                          (X_PAYMENT_HEADER @ '' header is required''))
                       (JRequirements paymentRequirements) None)), l)
             | Some paymentHeader \<Rightarrow>
                 if paymentHeader = [] then
                   (Inr (PaymentFailureResult
                      (buildPaymentRequiredResponse
                         (or_else (paymentRequired errorMessages)
                            (X_PAYMENT_HEADER @ '' header is required''))
                         (JRequirements paymentRequirements) None)), l)
                 else
                   (case verifyPayment (paymentProcessor L options) paymentHeader reqs l of
                      (PaymentFailure err rs, l1) \<Rightarrow>
                        (Inr (PaymentFailureResult
                           (buildPaymentRequiredResponse
                              (or_else (verificationFailed errorMessages)
                                 (or_else (Some (message err)) ''Payment verification failed''))
                              (JRequirements paymentRequirements)
                              (Some [''payer'' \<mapsto>
                                 (case details err of None \<Rightarrow> JUndefined
                                  | Some p \<Rightarrow> jopt p)]))), l1)
                    | (PaymentSuccess context, l1) \<Rightarrow>
                        (Inr (PaymentSuccessResult (payment context) (requirements context)
                           (settle_closure L options errorMessages paymentRequirements
                              context)), l1)))"

section \<open>Observations on the retry loop\<close>

text \<open>
  The outcome of the settle call with index \<open>i\<close> (the number of settle calls before
  it), as the loop reads it: a facilitator answer with \<^verbatim>\<open>success: true\<close>.
\<close>

definition attempt_succeeds :: "payment_processor \<Rightarrow> payment_context \<Rightarrow> nat \<Rightarrow> bool" where
  "attempt_succeeds this context i =
     (case settle (fac this) i (payment context) (requirements context) of
        Inr s \<Rightarrow> f_success s
      | Inl e \<Rightarrow> False)"

text \<open>The \<^verbatim>\<open>SettlementResult\<close> that \<^verbatim>\<open>settlePayment\<close> builds from that call.\<close>

definition attempt_result :: "payment_processor \<Rightarrow> payment_context \<Rightarrow> nat \<Rightarrow> settlement_result" where
  "attempt_result this context i =
     (case settle (fac this) i (payment context) (requirements context) of
        Inr s \<Rightarrow>
          \<lparr>success = f_success s, transaction = f_transaction s, s_network = f_network s,
           payer = f_payer s, error = None\<rparr>
      | Inl e \<Rightarrow>
          \<lparr>success = False, transaction = None, s_network = None, payer = None,
           error = Some (message_or e ''Settlement failed'')\<rparr>)"

text \<open>The settlement attempts and the waits of a log, in order.\<close>

definition attempts_and_waits :: "log \<Rightarrow> log" where
  "attempts_and_waits l = filter (\<lambda>e. is_settle e \<or> is_timeout e) l"

text \<open>
  The schedule in the words of the specification: \<open>m\<close> attempts, the first with
  attempt number \<open>k\<close>; between an attempt with number \<open>k\<close> and the next one a wait
  of \<open>retryDelay * k\<close>, the product of the two numbers; no wait after the last
  attempt.
\<close>

fun backoff_schedule :: "event \<Rightarrow> number \<Rightarrow> int \<Rightarrow> nat \<Rightarrow> log" where
  "backoff_schedule s d k 0 = []"
| "backoff_schedule s d k (Suc 0) = [s]"
| "backoff_schedule s d k (Suc (Suc m)) =
     s # SetTimeout (js_mul d (Num (of_int k))) # backoff_schedule s d (k + 1) (Suc m)"

section \<open>Concrete instances\<close>

text \<open>
  An instance of the imported functions, a facilitator and a request, used to run the
  model on concrete inputs. The instance behaves as the libraries do on these inputs:
  the price conversion returns an error for a price it cannot read, throws for a
  network it does not know and returns the amount otherwise; \<open>getAddress\<close> returns an
  address of \<open>0x\<close> and 40 hexadecimal digits (here already in its checksummed form)
  and throws for every other string, the empty one included; the decoder accepts the
  token \<open>''proof''\<close> only. The decoded payload claims protocol version 7.
\<close>

definition usdc :: asset_info where
  "usdc =
     \<lparr>address = ''0x833589fCD6eDb6E08f4c7C32D4f71b54bdA02913'', decimals = 6,
      eip712 = Some (''USD Coin'', ''2'')\<rparr>"

definition usdc_solana :: asset_info where
  "usdc_solana =
     \<lparr>address = ''EPjFWdd5AufqSSqeM2qN1xzybapC8G4wEGGkZwyTDt1v'', decimals = 6,
      eip712 = None\<rparr>"

definition shop :: string where
  "shop = ''0x1111111111111111111111111111111111111111''"

definition isAddress :: "string \<Rightarrow> bool" where
  "isAddress s =
     (length s = 42 \<and> take 2 s = ''0x'' \<and>
      list_all (\<lambda>c. c \<in> set ''0123456789abcdefABCDEF'') (drop 2 s))"

definition proof_payload :: payment_payload where
  "proof_payload =
     \<lparr>x402Version = 7, p_scheme = ''exact'', p_network = ''base'', p_payload = ''sig''\<rparr>"

definition test_lib :: x402_lib where
  "test_lib =
     \<lparr>processPriceToAtomicAmount =
        (\<lambda>p n. if p \<noteq> PriceString ''$0.01'' then Inr (Inl ''Invalid price'')
               else if n = ''base'' \<or> n = ''base-sepolia'' then Inr (Inr (''10000'', usdc))
               else if n = ''solana'' then Inr (Inr (''10000'', usdc_solana))
               else Inl (JsError ''Unsupported network'')),
      SupportedEVMNetworks = [''base-sepolia'', ''base''],
      getAddress = (\<lambda>a. if isAddress a then Inr a else Inl (JsError ''InvalidAddressError'')),
      decodePayment =
        (\<lambda>s. if s = ''proof'' then Inr proof_payload else Inl (JsError ''bad token'')),
      findMatchingPaymentRequirements =
        (\<lambda>rs p. find (\<lambda>r. scheme r = p_scheme p \<and> network r = p_network p) rs)\<rparr>"

text \<open>A facilitator that accepts every proof; its settle capability follows a script.\<close>

definition settled :: settle_response where
  "settled =
     \<lparr>f_success = True, f_transaction = Some ''0xabc'', f_network = Some ''base'',
      f_payer = Some ''0xpayer''\<rparr>"

definition declined :: settle_response where
  "declined =
     \<lparr>f_success = False, f_transaction = None, f_network = None, f_payer = None\<rparr>"

definition scripted :: "(thrown + settle_response) list \<Rightarrow> facilitator" where
  "scripted script =
     \<lparr>verify = (\<lambda>i p r. Inr \<lparr>isValid = True, invalidReason = None,
                                v_payer = Some ''0xpayer''\<rparr>),
      settle = (\<lambda>i p r. if i < length script then script ! i else Inr declined)\<rparr>"

definition test_request :: "(string \<rightharpoonup> string) \<Rightarrow> request" where
  "test_request hs =
     \<lparr>url = ''http://localhost/test'', req_method = ''post'', req_headers = hs\<rparr>"


text \<open>The requirement that a processor with recipient \<open>shop\<close> builds for the request.\<close>

definition test_requirement :: payment_requirements where
  "test_requirement =
     \<lparr>scheme = ''exact'', network = ''base'', maxAmountRequired = ''10000'',
      resource = ''http://localhost/test'', description = [],
      mimeType = ''application/json'', payTo = shop, maxTimeoutSeconds = Num 300,
      asset = ''0x833589fCD6eDb6E08f4c7C32D4f71b54bdA02913'',
      outputSchema =
        \<lparr>os_input =
           [''type'' \<mapsto> SStr ''http'', ''method'' \<mapsto> SStr ''POST'',
            ''discoverable'' \<mapsto> SBool True] ++ Map.empty,
         os_output = None\<rparr>,
      extra = Some (''USD Coin'', ''2'')\<rparr>"

definition test_context :: payment_context where
  "test_context =
     \<lparr>payment = proof_payload\<lparr>x402Version := 1\<rparr>, requirements = test_requirement,
      verification = \<lparr>isValid = True, invalidReason = None, v_payer = Some ''0xpayer''\<rparr>\<rparr>"

text \<open>A response the handler constructed, and one with immutable headers.\<close>

definition test_response :: "int \<Rightarrow> response" where
  "test_response st =
     \<lparr>status = st, headers = JSON_CONTENT_TYPE, immutable = False, body = Text ''{}''\<rparr>"


text \<open>Callbacks that return normally, and the options of the README example.\<close>

definition retry_options :: "number option \<Rightarrow> number option \<Rightarrow> async_settlement_options" where
  "retry_options n d =
     \<lparr>enabled = True, maxRetries = n, retryDelay = d,
      onSettlementSuccess = Some (\<lambda>r. None), onSettlementError = Some (\<lambda>e. None)\<rparr>"

definition test_processor ::
  "string \<Rightarrow> async_settlement_options option \<Rightarrow> facilitator \<Rightarrow> payment_processor" where
  "test_processor net a f =
     \<lparr>lib = test_lib, config = \<lparr>recipient = shop, c_network = net\<rparr>,
      asyncSettlement = a, fac = f\<rparr>"

section \<open>Double arithmetic on integers\<close>

text \<open>
  An integer of magnitude up to \<open>2 ^ 53\<close> is a double, so sums and products that
  stay in that range are exact.
\<close>

lemma round_half_even_of_int: "round_half_even (of_int z) = z"
  by (simp add: round_half_even_def)

lemma fl_of_int_pos:
  assumes "0 < z" and "z \<le> 2 ^ 53"
  shows "fl (of_int z) = Num (of_int z)"
proof -
  define e where "e = bitlen z - 1"
  have b: "2 ^ nat e \<le> z" "z < 2 ^ nat (e + 1)" and e0: "0 \<le> e"
    using bitlen_bounds [OF assms(1)] assms(1) by (auto simp: e_def bitlen_alt_def)
  have fle: "floor_log2 (of_int z) = e"
    using assms(1) by (simp add: floor_log2_def e_def)
  have "(2::int) ^ nat e \<le> 2 ^ 53" using b(1) assms(2) by linarith
  then have e53: "e \<le> 53" using e0
    by (metis power_le_imp_le_exp nat_le_iff numeral_le_iff one_less_numeral_iff semiring_norm(76) of_nat_numeral)
  define u :: rat where "u = 2 powi (e - 52)"
  have upos: "0 < u" by (simp add: u_def)
  have "\<exists>m::int. of_int z / u = of_int m"
  proof (cases "e \<le> 52")
    case True
    then have "u = inverse (2 ^ nat (52 - e))"
      by (simp add: u_def power_int_def power_inverse power_one_over inverse_eq_divide)
    then have "of_int z / u = of_int z * 2 ^ nat (52 - e)"
      by (simp only: divide_inverse inverse_inverse_eq)
    then have "of_int z / u = of_int (z * 2 ^ nat (52 - e))"
      by simp
    then show ?thesis by blast
  next
    case False
    then have e: "e = 53" using e53 by simp
    then have "z = 2 ^ 53" using b(1) assms(2) by simp
    moreover have "u = 2" using e by (simp add: u_def)
    ultimately have "of_int z / u = of_int (2 ^ 52)" by simp
    then show ?thesis by blast
  qed
  then obtain m :: int where m: "of_int z / u = of_int m" by blast
  have "of_int (round_half_even (of_int z / u)) * u = of_int m * u"
    by (simp only: m round_half_even_of_int)
  also have "\<dots> = of_int z / u * u" by (simp only: m)
  also have "\<dots> = of_int z" using upos by simp
  finally have v: "of_int (round_half_even (of_int z / u)) * u = of_int z" .
  have "(of_int z :: rat) \<le> 2 ^ 53" using assms(2) by (metis of_int_le_iff of_int_numeral of_int_power)
  also have "\<dots> < 2 ^ 1024" by simp
  finally have small: "\<not> 2 powi 1024 \<le> (of_int z :: rat)" by simp
  show ?thesis
    using assms(1) e0 fle v small
    by (simp add: fl_def Let_def u_def max_def)
qed

lemma fl_of_int:
  assumes "\<bar>z\<bar> \<le> 2 ^ 53"
  shows "fl (of_int z) = Num (of_int z)"
proof (cases "z = 0")
  case True
  then show ?thesis by (simp add: fl_def)
next
  case False
  show ?thesis
  proof (cases "0 < z")
    case True
    then show ?thesis using fl_of_int_pos assms by simp
  next
    case neg: False
    then have p: "0 < - z" "- z \<le> 2 ^ 53" using False assms by auto
    have 1: "fl (of_int (- z)) = Num (of_int (- z))" using fl_of_int_pos [OF p] .
    have 2: "fl (- q) = (case fl q of Num v \<Rightarrow> Num (- v) | NaN \<Rightarrow> NaN
                        | PosInf \<Rightarrow> NegInf | NegInf \<Rightarrow> PosInf)" for q
      by (simp add: fl_def Let_def)
    have "fl (of_int z) = fl (- of_int (- z))" by simp
    also have "\<dots> = Num (of_int z)" unfolding 2 1 by simp
    finally show ?thesis .
  qed
qed

lemma js_add_one:
  assumes "0 \<le> a" and "a < 2 ^ 53"
  shows "js_add (Num (of_int a)) (Num 1) = Num (of_int (a + 1))"
  using fl_of_int [of "a + 1"] assms by simp

lemma js_mul_exact:
  assumes "\<bar>D * k\<bar> \<le> 2 ^ 53"
  shows "js_mul (Num (of_int D)) (Num (of_int k)) = Num (of_int (D * k))"
  using fl_of_int [OF assms] by simp

lemma js_le_of_int: "js_le (Num (of_int a)) (Num (of_int n)) = (a \<le> n)"
  by simp

lemma js_strict_eq_of_int: "js_strict_eq (Num (of_int a)) (Num (of_int n)) = (a = n)"
  by (simp add: js_strict_eq_def)

lemma fl_numeral:
  "numeral k \<le> (2 ^ 53 :: int) \<Longrightarrow> fl (numeral k) = Num (numeral k)"
  using fl_of_int [of "numeral k"] by simp

lemma fl_1000: "fl 1000 = Num 1000" "fl 2000 = Num 2000" "fl 2 = Num 2" "fl 3 = Num 3"
  by (simp_all add: fl_numeral)

text \<open>Above \<open>2 ^ 53\<close> the counter no longer grows.\<close>

lemma attempt_counter_stalls:
  "js_add (Num (2 ^ 53)) (Num 1) = Num (2 ^ 53)"
  by code_simp

section \<open>Running the concrete instances\<close>

lemma test_processor_fields:
  "lib (test_processor net a f) = test_lib"
  "fac (test_processor net a f) = f"
  "config (test_processor net a f) = \<lparr>recipient = shop, c_network = net\<rparr>"
  "asyncSettlement (test_processor net a f) = a"
  by (simp_all add: test_processor_def)

lemma scripted_settle:
  "settle (scripted script) i p r = (if i < length script then script ! i else Inr declined)"
  by (simp add: scripted_def)

lemma isAddress_examples:
  "isAddress shop" "isAddress ''0x833589fCD6eDb6E08f4c7C32D4f71b54bdA02913''" "\<not> isAddress []"
  by (simp_all add: isAddress_def shop_def)

lemma test_lib_fields:
  "processPriceToAtomicAmount test_lib p n =
     (if p \<noteq> PriceString ''$0.01'' then Inr (Inl ''Invalid price'')
      else if n = ''base'' \<or> n = ''base-sepolia'' then Inr (Inr (''10000'', usdc))
      else if n = ''solana'' then Inr (Inr (''10000'', usdc_solana))
      else Inl (JsError ''Unsupported network''))"
  "SupportedEVMNetworks test_lib = [''base-sepolia'', ''base'']"
  "getAddress test_lib adr = (if isAddress adr then Inr adr else Inl (JsError ''InvalidAddressError''))"
  "decodePayment test_lib s =
     (if s = ''proof'' then Inr proof_payload else Inl (JsError ''bad token''))"
  "findMatchingPaymentRequirements test_lib rs pl =
     find (\<lambda>r. scheme r = p_scheme pl \<and> network r = p_network pl) rs"
  by (simp_all add: test_lib_def)

lemma scripted_verify:
  "verify (scripted script) i p r =
     Inr \<lparr>isValid = True, invalidReason = None, v_payer = Some ''0xpayer''\<rparr>"
  by (simp add: scripted_def)


lemma processor_requirement:
  "createPaymentRequirements (test_processor ''base'' a f) (test_request hs)
     (PriceString ''$0.01'') None None = Inr (Requirement test_requirement)"
  by (simp add: createPaymentRequirements_def test_processor_fields test_lib_fields
        isAddress_examples test_request_def usdc_def toUpperCase_def upper_char_def
        test_requirement_def)

lemma processor_verify:
  "verifyPayment (test_processor ''base'' a (scripted script)) ''proof'' test_requirement [] =
   (PaymentSuccess test_context, [FacilitatorVerify (payment test_context) test_requirement])"
  by (simp add: verifyPayment_def test_processor_fields test_lib_fields Let_def
        proof_payload_def test_context_def test_requirement_def scripted_verify
        verify_calls_def X402_VERSION_def)

section \<open>Requirement construction\<close>




section \<open>Proof verification\<close>

text \<open>
  Claim C3: for every proof token whose decoding fails, \<^verbatim>\<open>verifyPayment\<close> returns a
  failure with code \<^verbatim>\<open>INVALID_PAYMENT\<close> that carries the singleton list of the
  requirement, and the log is returned as it was: neither \<^verbatim>\<open>facilitator.verify\<close> nor
  \<^verbatim>\<open>facilitator.settle\<close> is called.
\<close>

theorem verifyPayment_decode_failure:
  assumes "decodePayment (lib this) paymentData = Inl e"
  shows "verifyPayment this paymentData reqs l =
           (PaymentFailure
              \<lparr>code = ''INVALID_PAYMENT'', message = message_or e ''Invalid payment'',
               details = None\<rparr> (Some [reqs]), l)"
  using assms by (simp add: verifyPayment_def)

theorem verifyPayment_decode_failure_witness:
  "decodePayment (lib (test_processor ''base'' None (scripted []))) ''invalid-payment''
     = Inl (JsError ''bad token'') \<and>
   verifyPayment (test_processor ''base'' None (scripted [])) ''invalid-payment''
       test_requirement [] =
     (PaymentFailure
        \<lparr>code = ''INVALID_PAYMENT'', message = ''bad token'', details = None\<rparr>
        (Some [test_requirement]), [])"
proof -
  have d: "decodePayment (lib (test_processor ''base'' None (scripted []))) ''invalid-payment''
     = Inl (JsError ''bad token'')"
    by (simp add: test_processor_fields test_lib_fields)
  show ?thesis
    using d verifyPayment_decode_failure [OF d, of test_requirement "[]"] by simp
qed

text \<open>
  Claim C9: for every successfully decoded proof token, \<^verbatim>\<open>verifyPayment\<close> overwrites
  \<^verbatim>\<open>x402Version\<close> of the decoded payload with 1 before the requirement matching and
  before the facilitator's verify call, whatever version the token encodes. The matching
  is decided on the payload with version 1; the one verify call, if any, carries that
  payload; a returned context holds it, so \<^verbatim>\<open>payment.x402Version = 1\<close>; and the
  outcome is the same for every version \<open>v\<close> the token could have encoded.
\<close>

theorem verifyPayment_version_overwritten:
  assumes "decodePayment (lib this) paymentData = Inr decoded"
  shows "(findMatchingPaymentRequirements (lib this) [reqs] (decoded\<lparr>x402Version := 1\<rparr>) = None
            \<longrightarrow> snd (verifyPayment this paymentData reqs l) = l) \<and>
         (\<forall>sel. findMatchingPaymentRequirements (lib this) [reqs]
                  (decoded\<lparr>x402Version := 1\<rparr>) = Some sel
            \<longrightarrow> snd (verifyPayment this paymentData reqs l) =
                  l @ [FacilitatorVerify (decoded\<lparr>x402Version := 1\<rparr>) sel]) \<and>
         (\<forall>context. fst (verifyPayment this paymentData reqs l) = PaymentSuccess context
            \<longrightarrow> payment context = decoded\<lparr>x402Version := 1\<rparr> \<and>
                x402Version (payment context) = 1) \<and>
         (\<forall>v. verifyPayment
                 (this\<lparr>lib := (lib this)\<lparr>decodePayment :=
                    (\<lambda>s. if s = paymentData then Inr (decoded\<lparr>x402Version := v\<rparr>)
                          else decodePayment (lib this) s)\<rparr>\<rparr>)
                 paymentData reqs l
               = verifyPayment this paymentData reqs l)"
  using assms
  by (auto simp: verifyPayment_def Let_def X402_VERSION_def split: option.splits sum.splits)

theorem verifyPayment_version_overwritten_witness:
  "decodePayment (lib (test_processor ''base'' None (scripted []))) ''proof'' = Inr proof_payload \<and>
   x402Version proof_payload = 7 \<and>
   verifyPayment (test_processor ''base'' None (scripted [])) ''proof'' test_requirement [] =
     (PaymentSuccess test_context,
      [FacilitatorVerify (proof_payload\<lparr>x402Version := 1\<rparr>) test_requirement]) \<and>
   x402Version (payment test_context) = 1"
proof -
  let ?P = "test_processor ''base'' None (scripted [])"
  have d: "decodePayment (lib ?P) ''proof'' = Inr proof_payload"
    by (simp add: test_processor_fields test_lib_fields)
  have m: "findMatchingPaymentRequirements (lib ?P) [test_requirement]
             (proof_payload\<lparr>x402Version := 1\<rparr>) = Some test_requirement"
    by (simp add: test_processor_fields test_lib_fields test_requirement_def proof_payload_def)
  have v: "verify (fac ?P) i p r =
             Inr \<lparr>isValid = True, invalidReason = None, v_payer = Some ''0xpayer''\<rparr>" for i p r
    by (simp add: test_processor_fields scripted_verify)
  have r: "fst (verifyPayment ?P ''proof'' test_requirement []) = PaymentSuccess test_context"
    by (simp add: verifyPayment_def Let_def d m v X402_VERSION_def) (simp add: test_context_def)
  have "snd (verifyPayment ?P ''proof'' test_requirement []) =
          [] @ [FacilitatorVerify (proof_payload\<lparr>x402Version := 1\<rparr>) test_requirement]"
    using verifyPayment_version_overwritten [OF d, of test_requirement "[]"] m by blast
  then show ?thesis
    using d r by (simp add: prod_eq_iff) (simp add: proof_payload_def test_context_def)
qed

section \<open>The gatekeeper of the HTTP adapter\<close>

text \<open>
  \<^verbatim>\<open>createPaymentPlugin\<close> builds its processor with the empty recipient, under the
  comment that the recipient will be set in \<^verbatim>\<open>ensurePayment\<close>, and
  \<^verbatim>\<open>ensurePayment\<close> does not set it. With a \<^verbatim>\<open>getAddress\<close> that rejects the empty
  string, every request whose price is converted ends in that exception, and no request
  is admitted.
\<close>

lemma plugin_recipient_rejected:
  assumes "getAddress L [] = Inl e"
      and "processPriceToAtomicAmount L (e_price cfg) ''base'' = Inr (Inr converted)"
      and "''base'' \<in> set (SupportedEVMNetworks L)"
  shows "ensurePayment L options req cfg l = (Inl e, l)"
  using assms
  by (simp add: ensurePayment_def createPaymentRequirements_def paymentProcessor_def
        split: prod.splits)

lemma plugin_never_admits:
  assumes "getAddress L [] = Inl e"
  shows "ensurePayment L options req cfg l \<noteq> (Inr (PaymentSuccessResult p r s), l1)"
  using assms
  by (auto simp: ensurePayment_def createPaymentRequirements_def paymentProcessor_def Let_def
        split: prod.splits sum.splits)

text \<open>Had the requirement been built, the missing header would be answered with 402.\<close>

lemma ensurePayment_missing_header_if_built:
  assumes "createPaymentRequirements (paymentProcessor L options) req (e_price cfg)
             (e_resource cfg) (Some (nullish (e_config cfg) no_config)) = Inr (Requirement reqs)"
      and "headers_get (req_headers req) X_PAYMENT_HEADER = None"
  shows "\<exists>resp obj.
           ensurePayment L options req cfg l = (Inr (PaymentFailureResult resp), l) \<and>
           status resp = 402 \<and> body resp = Stringify obj \<and>
           obj ''accepts'' = Some (JRequirements [reqs])"
  using assms
  by (simp add: ensurePayment_def Let_def buildPaymentRequiredResponse_def)


text \<open>Every closure that \<^verbatim>\<open>ensurePayment\<close> can return is an instance of \<open>settle_closure\<close>.\<close>

lemma ensurePayment_closure:
  assumes "ensurePayment L options req cfg l = (Inr (PaymentSuccessResult p r s), l1)"
  shows "\<exists>errorMessages paymentRequirements context.
           s = settle_closure L options errorMessages paymentRequirements context"
  using assms
  by (auto simp: ensurePayment_def Let_def
      split: sum.splits requirements_or_failure.splits option.splits if_splits
        payment_result.splits prod.splits)

text \<open>
  Claim C5: for every handler response whose status is at least 400, the \<^verbatim>\<open>settle\<close>
  closure of \<^verbatim>\<open>ensurePayment\<close> returns an ok outcome with the response as it was
  given (no header added) and returns the log as it was: no settlement attempt is made,
  in the synchronous and in the asynchronous mode alike. This holds for the closure's
  code with any values of the variables it captures.
\<close>

theorem settle_short_circuit:
  assumes "status resp \<ge> 400"
  shows "settle_closure L options errorMessages paymentRequirements context resp l =
           (\<lparr>ok = True, response = resp\<rparr>, Some l)"
  using assms by (simp add: settle_closure_def)

theorem settle_short_circuit_witness:
  "status (test_response 500) \<ge> 400 \<and>
   settle_closure test_lib
       \<lparr>plugin_facilitator = scripted [Inr settled],
        plugin_asyncSettlement = Some (retry_options (Some (Num 3)) (Some (Num 1000)))\<rparr>
       no_messages [test_requirement] test_context (test_response 500)
       [FacilitatorVerify (payment test_context) test_requirement] =
     (\<lparr>ok = True, response = test_response 500\<rparr>,
      Some [FacilitatorVerify (payment test_context) test_requirement])"
proof -
  have s: "status (test_response 500) \<ge> 400"
    by (simp add: test_response_def)
  show ?thesis
    using s settle_short_circuit [OF s] by simp
qed

section \<open>Synchronous settlement\<close>

text \<open>\<^verbatim>\<open>settlePayment\<close> catches every exception, so its promise never rejects.\<close>

lemma settlePayment_never_rejects:
  "\<exists>r. fst (settlePayment this context l) = Inr r"
  by (simp add: settlePayment_def Let_def split: sum.splits)




text \<open>
  The closure in the synchronous mode, for a response of status below 400. A facilitator
  answer with \<^verbatim>\<open>success: false\<close> and an exception of the facilitator both end in
  \<^verbatim>\<open>ok: true\<close> with the response unchanged: \<^verbatim>\<open>settlePayment\<close> never rejects, and
  the closure does not look at \<^verbatim>\<open>settlement.success\<close> before it answers. Its
  \<^verbatim>\<open>catch\<close> block is entered only when \<^verbatim>\<open>headers.set\<close> throws after a settlement
  that succeeded.
\<close>

lemma settle_closure_sync_declined:
  assumes "plugin_asyncSettlement options = None \<or>
           (\<exists>a. plugin_asyncSettlement options = Some a \<and> \<not> enabled a)"
      and "status resp < 400"
      and "settle (plugin_facilitator options) (settle_calls l) (payment context)
             (requirements context) = Inr s" and "\<not> f_success s"
  shows "settle_closure L options errorMessages paymentRequirements context resp l =
           (\<lparr>ok = True, response = resp\<rparr>,
            Some (l @ [FacilitatorSettle (payment context) (requirements context)]))"
  using assms
  by (auto simp: settle_closure_def settlePayment_def Let_def paymentProcessor_def)

lemma settle_closure_sync_thrown:
  assumes "plugin_asyncSettlement options = None \<or>
           (\<exists>a. plugin_asyncSettlement options = Some a \<and> \<not> enabled a)"
      and "status resp < 400"
      and "settle (plugin_facilitator options) (settle_calls l) (payment context)
             (requirements context) = Inl e"
  shows "settle_closure L options errorMessages paymentRequirements context resp l =
           (\<lparr>ok = True, response = resp\<rparr>,
            Some (l @ [FacilitatorSettle (payment context) (requirements context)]))"
  using assms
  by (auto simp: settle_closure_def settlePayment_def Let_def paymentProcessor_def)

lemma settle_closure_sync_immutable:
  assumes "plugin_asyncSettlement options = None"
      and "status resp < 400" and "immutable resp"
      and "settle (plugin_facilitator options) (settle_calls l) (payment context)
             (requirements context) = Inr s" and "f_success s"
  shows "ok (fst (settle_closure L options errorMessages paymentRequirements context resp l))
           = False"
  using assms
  by (simp add: settle_closure_def settlePayment_def Let_def paymentProcessor_def
        response_headers_set_def)

section \<open>Deferred settlement: the retry loop\<close>

subsection \<open>One iteration\<close>

lemma settle_calls_append [simp]: "settle_calls (xs @ ys) = settle_calls xs + settle_calls ys"
  by (simp add: settle_calls_def)

lemma attempts_and_waits_append [simp]:
  "attempts_and_waits (xs @ ys) = attempts_and_waits xs @ attempts_and_waits ys"
  by (simp add: attempts_and_waits_def)

lemma settle_calls_Nil [simp]: "settle_calls [] = 0"
  by (simp add: settle_calls_def)

lemma attempts_and_waits_Nil [simp]: "attempts_and_waits [] = []"
  by (simp add: attempts_and_waits_def)

lemma callbacks_append:
  "success_callbacks (xs @ ys) = success_callbacks xs + success_callbacks ys"
  "error_callbacks (xs @ ys) = error_callbacks xs + error_callbacks ys"
  by (simp_all add: success_callbacks_def error_callbacks_def)

lemma try_settle_shape:
  "\<exists>cbs. snd (try_settle P ctx l) =
            l @ FacilitatorSettle (payment ctx) (requirements ctx) # cbs \<and>
         attempts_and_waits cbs = [] \<and> settle_calls cbs = 0"
  by (auto simp: try_settle_def settlePayment_def Let_def attempts_and_waits_def settle_calls_def
      split: sum.splits option.splits)

lemma try_settle_success:
  assumes "attempt_succeeds P ctx (settle_calls l)"
      and "Option.bind (asyncSettlement P) onSettlementSuccess = Some cbS"
      and "cbS (attempt_result P ctx (settle_calls l)) = None"
  shows "try_settle P ctx l =
           (None, l @ [FacilitatorSettle (payment ctx) (requirements ctx),
                       OnSettlementSuccess (attempt_result P ctx (settle_calls l))])"
  using assms
  by (auto simp: try_settle_def settlePayment_def Let_def attempt_succeeds_def
        attempt_result_def split: sum.splits)

lemma try_settle_failure:
  assumes "\<not> attempt_succeeds P ctx (settle_calls l)"
  shows "try_settle P ctx l =
           (Some (JsError (or_else (error (attempt_result P ctx (settle_calls l)))
                    ''Settlement failed'')),
            l @ [FacilitatorSettle (payment ctx) (requirements ctx)])"
  using assms
  by (auto simp: try_settle_def settlePayment_def Let_def attempt_succeeds_def
        attempt_result_def split: sum.splits)

lemma try_settle_returned:
  "fst (try_settle P ctx l) = None \<Longrightarrow> attempt_succeeds P ctx (settle_calls l)"
  by (auto simp: try_settle_def settlePayment_def Let_def attempt_succeeds_def
        split: sum.splits if_splits)

text \<open>One iteration with an integer counter and an integer bound up to \<open>2 ^ 53\<close>.\<close>

lemma loop_exit:
  "n < a \<Longrightarrow>
   settlePaymentInBackground_loop P ctx (Num (of_int n)) d (Num (of_int a)) l = Some (None, l)"
  by (subst settlePaymentInBackground_loop.simps) simp

lemma loop_returned:
  "a \<le> n \<Longrightarrow> try_settle P ctx l = (None, l1) \<Longrightarrow>
   settlePaymentInBackground_loop P ctx (Num (of_int n)) d (Num (of_int a)) l = Some (None, l1)"
  by (subst settlePaymentInBackground_loop.simps) simp

lemma loop_last:
  "try_settle P ctx l = (Some e, l1) \<Longrightarrow>
   settlePaymentInBackground_loop P ctx (Num (of_int n)) d (Num (of_int n)) l =
     (case Option.bind (asyncSettlement P) onSettlementError of
        None \<Rightarrow> Some (None, l1)
      | Some cb \<Rightarrow> Some (cb e, l1 @ [OnSettlementError e]))"
  by (subst settlePaymentInBackground_loop.simps) (simp add: js_strict_eq_def)

lemma loop_retry_below:
  assumes "0 \<le> a" and "a < n" and "a < 2 ^ 53" and "try_settle P ctx l = (Some e, l1)"
  shows "settlePaymentInBackground_loop P ctx (Num (of_int n)) d (Num (of_int a)) l =
           settlePaymentInBackground_loop P ctx (Num (of_int n)) d (Num (of_int (a + 1)))
             (l1 @ [SetTimeout (js_mul d (Num (of_int a)))])"
proof -
  have "js_add (Num (of_int a)) (Num 1) = Num (of_int (a + 1))"
    using assms by (intro js_add_one) auto
  then show ?thesis
    using assms
    by (subst settlePaymentInBackground_loop.simps) (simp add: js_strict_eq_def)
qed

lemma loop_retry:
  assumes "0 \<le> a" and "a < n" and "n \<le> 2 ^ 53" and "try_settle P ctx l = (Some e, l1)"
  shows "settlePaymentInBackground_loop P ctx (Num (of_int n)) d (Num (of_int a)) l =
           settlePaymentInBackground_loop P ctx (Num (of_int n)) d (Num (of_int (a + 1)))
             (l1 @ [SetTimeout (js_mul d (Num (of_int a)))])"
  using loop_retry_below [OF assms(1) assms(2) _ assms(4)] assms(2) assms(3) by simp

subsection \<open>The attempts and waits of a run\<close>

lemma backoff_schedule_step:
  "0 < m \<Longrightarrow>
   backoff_schedule s d k (Suc m) =
     s # SetTimeout (js_mul d (Num (of_int k))) # backoff_schedule s d (k + 1) m"
  by (cases m) simp_all

lemma schedule_counts:
  "settle_calls (backoff_schedule (FacilitatorSettle p r) d k m) = m"
  "success_callbacks (backoff_schedule (FacilitatorSettle p r) d k m) = 0"
  "error_callbacks (backoff_schedule (FacilitatorSettle p r) d k m) = 0"
  by (induction "FacilitatorSettle p r" d k m rule: backoff_schedule.induct)
     (simp_all add: settle_calls_def success_callbacks_def error_callbacks_def)

lemma loop_schedule:
  assumes "n \<le> 2 ^ 53"
  shows "0 \<le> a \<Longrightarrow>
     \<exists>u tr. settlePaymentInBackground_loop P ctx (Num (of_int n)) d (Num (of_int a)) l
               = Some (u, l @ tr) \<and>
        attempts_and_waits tr =
          backoff_schedule (FacilitatorSettle (payment ctx) (requirements ctx)) d a
            (settle_calls tr) \<and>
        (a \<le> n \<longrightarrow> 1 \<le> settle_calls tr) \<and>
        int (settle_calls tr) \<le> max 0 (n + 1 - a)"
proof (induction "nat (n + 1 - a)" arbitrary: a l)
  case 0
  then have "n < a" by simp
  then show ?case using loop_exit [of n a P ctx d l] by simp
next
  case (Suc k)
  let ?S = "FacilitatorSettle (payment ctx) (requirements ctx)"
  have le: "a \<le> n" using Suc.hyps(2) by simp
  obtain caught l1 where t: "try_settle P ctx l = (caught, l1)"
    by (cases "try_settle P ctx l")
  obtain cbs where cb: "l1 = l @ ?S # cbs" "attempts_and_waits cbs = []" "settle_calls cbs = 0"
    using try_settle_shape [of P ctx l] t by auto
  have s: "attempts_and_waits [?S] = [?S]" "settle_calls [?S] = 1"
    by (simp_all add: attempts_and_waits_def settle_calls_def)
  show ?case
  proof (cases caught)
    case None
    have "settlePaymentInBackground_loop P ctx (Num (of_int n)) d (Num (of_int a)) l
            = Some (None, l @ ?S # cbs)"
      using loop_returned [OF le] t None cb by simp
    moreover have "attempts_and_waits (?S # cbs) = backoff_schedule ?S d a (settle_calls (?S # cbs))"
      using cb s attempts_and_waits_append [of "[?S]" cbs] settle_calls_append [of "[?S]" cbs]
      by simp
    moreover have "settle_calls (?S # cbs) = 1"
      using cb s settle_calls_append [of "[?S]" cbs] by simp
    ultimately show ?thesis using le by auto
  next
    case (Some e)
    show ?thesis
    proof (cases "a = n")
      case eq: True
      obtain u fin where f:
        "settlePaymentInBackground_loop P ctx (Num (of_int n)) d (Num (of_int a)) l
           = Some (u, l @ ?S # cbs @ fin)"
        "attempts_and_waits fin = []" "settle_calls fin = 0"
      proof (cases "Option.bind (asyncSettlement P) onSettlementError")
        case None
        then have "settlePaymentInBackground_loop P ctx (Num (of_int n)) d (Num (of_int a)) l
                     = Some (None, l @ ?S # cbs @ [])"
          using loop_last [of P ctx l e l1 n d] t Some eq cb by simp
        then show ?thesis using that [of None "[]"] by simp
      next
        case (Some cb')
        then have "settlePaymentInBackground_loop P ctx (Num (of_int n)) d (Num (of_int a)) l
                     = Some (cb' e, l @ ?S # cbs @ [OnSettlementError e])"
          using loop_last [of P ctx l e l1 n d] t \<open>caught = Some e\<close> eq cb by simp
        then show ?thesis using that [of "cb' e" "[OnSettlementError e]"]
          by (simp add: attempts_and_waits_def settle_calls_def)
      qed
      have "attempts_and_waits (?S # cbs @ fin) = [?S]"
        using cb f s attempts_and_waits_append [of "[?S]" "cbs @ fin"] by simp
      moreover have "settle_calls (?S # cbs @ fin) = 1"
        using cb f s settle_calls_append [of "[?S]" "cbs @ fin"] by simp
      ultimately show ?thesis using f le by auto
    next
      case ne: False
      let ?l2 = "l1 @ [SetTimeout (js_mul d (Num (of_int a)))]"
      have lt: "a < n" using le ne by simp
      have r: "settlePaymentInBackground_loop P ctx (Num (of_int n)) d (Num (of_int a)) l
                 = settlePaymentInBackground_loop P ctx (Num (of_int n)) d (Num (of_int (a + 1))) ?l2"
        using loop_retry [OF Suc.prems lt assms] t Some by simp
      have k: "k = nat (n + 1 - (a + 1))" using Suc.hyps(2) by simp
      have a1: "0 \<le> a + 1" using Suc.prems by simp
      obtain u tr where tr:
        "settlePaymentInBackground_loop P ctx (Num (of_int n)) d (Num (of_int (a + 1))) ?l2
           = Some (u, ?l2 @ tr)"
        "attempts_and_waits tr = backoff_schedule ?S d (a + 1) (settle_calls tr)"
        "1 \<le> settle_calls tr" "int (settle_calls tr) \<le> max 0 (n + 1 - (a + 1))"
        using Suc.hyps(1) [OF k a1, of ?l2] lt by auto
      let ?tr = "?S # cbs @ SetTimeout (js_mul d (Num (of_int a))) # tr"
      have 1: "settlePaymentInBackground_loop P ctx (Num (of_int n)) d (Num (of_int a)) l
                 = Some (u, l @ ?tr)"
        using r tr cb by simp
      have 2: "settle_calls ?tr = Suc (settle_calls tr)"
        using cb s settle_calls_append [of "[?S]" "cbs @ SetTimeout (js_mul d (Num (of_int a))) # tr"]
          settle_calls_append [of "[SetTimeout (js_mul d (Num (of_int a)))]" tr]
        by (simp add: settle_calls_def)
      have 3: "attempts_and_waits ?tr
                 = ?S # SetTimeout (js_mul d (Num (of_int a))) # attempts_and_waits tr"
        using cb by (simp add: attempts_and_waits_def)
      have 4: "attempts_and_waits ?tr = backoff_schedule ?S d a (settle_calls ?tr)"
        using 2 3 tr backoff_schedule_step [of "settle_calls tr" ?S d a] by simp
      show ?thesis using 1 2 4 tr lt by auto
    qed
  qed
qed

lemma loop_progress:
  assumes "n \<le> 2 ^ 53"
  shows "0 \<le> a \<Longrightarrow>
   settlePaymentInBackground_loop P ctx (Num (of_int n)) d (Num (of_int a)) l = Some (u, l @ tr) \<Longrightarrow>
   i < settle_calls tr \<Longrightarrow> a + int i < n \<Longrightarrow>
   \<not> attempt_succeeds P ctx (settle_calls l + i) \<Longrightarrow> Suc i < settle_calls tr"
proof (induction i arbitrary: a l tr)
  case 0
  let ?S = "FacilitatorSettle (payment ctx) (requirements ctx)"
  have lt: "a < n" using "0.prems"(4) by simp
  have f: "\<not> attempt_succeeds P ctx (settle_calls l)" using "0.prems"(5) by simp
  let ?l2 = "l @ [?S] @ [SetTimeout (js_mul d (Num (of_int a)))]"
  have r: "settlePaymentInBackground_loop P ctx (Num (of_int n)) d (Num (of_int a)) l
             = settlePaymentInBackground_loop P ctx (Num (of_int n)) d (Num (of_int (a + 1))) ?l2"
    using loop_retry [OF "0.prems"(1) lt assms] try_settle_failure [OF f] by simp
  obtain u' tr' where tr':
    "settlePaymentInBackground_loop P ctx (Num (of_int n)) d (Num (of_int (a + 1))) ?l2
       = Some (u', ?l2 @ tr')" "1 \<le> settle_calls tr'"
    using loop_schedule [OF assms, of "a + 1" P ctx d ?l2] "0.prems"(1) lt by auto
  have "tr = ?S # SetTimeout (js_mul d (Num (of_int a))) # tr'"
    using r tr' "0.prems"(2) by simp
  then have "settle_calls tr = Suc (settle_calls tr')"
    by (simp add: settle_calls_def)
  then show ?case using tr' by simp
next
  case (Suc i)
  let ?S = "FacilitatorSettle (payment ctx) (requirements ctx)"
  have lt: "a < n" using Suc.prems(4) by simp
  obtain caught l1 where t: "try_settle P ctx l = (caught, l1)"
    by (cases "try_settle P ctx l")
  obtain cbs where cb: "l1 = l @ ?S # cbs" "settle_calls cbs = 0"
    using try_settle_shape [of P ctx l] t by auto
  have s: "settle_calls [?S] = 1"
    by (simp add: settle_calls_def)
  show ?case
  proof (cases caught)
    case None
    have "settlePaymentInBackground_loop P ctx (Num (of_int n)) d (Num (of_int a)) l
            = Some (None, l @ ?S # cbs)"
      using loop_returned [of a n] lt t None cb by simp
    then have "tr = ?S # cbs" using Suc.prems(2) by simp
    then have "settle_calls tr = 1"
      using cb s settle_calls_append [of "[?S]" cbs] by simp
    then show ?thesis using Suc.prems(3) by simp
  next
    case (Some e)
    let ?l2 = "l1 @ [SetTimeout (js_mul d (Num (of_int a)))]"
    have r: "settlePaymentInBackground_loop P ctx (Num (of_int n)) d (Num (of_int a)) l
               = settlePaymentInBackground_loop P ctx (Num (of_int n)) d (Num (of_int (a + 1))) ?l2"
      using loop_retry [OF Suc.prems(1) lt assms] t Some by simp
    obtain u' tr' where tr':
      "settlePaymentInBackground_loop P ctx (Num (of_int n)) d (Num (of_int (a + 1))) ?l2
         = Some (u', ?l2 @ tr')"
      using loop_schedule [OF assms, of "a + 1" P ctx d ?l2] Suc.prems(1) by auto
    have eq: "tr = ?S # cbs @ SetTimeout (js_mul d (Num (of_int a))) # tr'"
      using r tr' cb Suc.prems(2) by simp
    have c: "settle_calls tr = Suc (settle_calls tr')"
      unfolding eq
      using cb s settle_calls_append [of "[?S]" "cbs @ SetTimeout (js_mul d (Num (of_int a))) # tr'"]
        settle_calls_append [of "[SetTimeout (js_mul d (Num (of_int a)))]" tr']
      by (simp add: settle_calls_def)
    have c2: "settle_calls ?l2 = Suc (settle_calls l)"
      using cb s settle_calls_append [of "[?S]" "cbs"]
      by (simp add: settle_calls_def)
    have tr'u:
      "settlePaymentInBackground_loop P ctx (Num (of_int n)) d (Num (of_int (a + 1))) ?l2
         = Some (u, ?l2 @ tr')"
      using r tr' Suc.prems(2) by simp
    have "Suc i < settle_calls tr'"
    proof (rule Suc.IH [OF _ tr'u])
      show "0 \<le> a + 1" using Suc.prems(1) by simp
      show "i < settle_calls tr'" using Suc.prems(3) c by simp
      show "a + 1 + int i < n" using Suc.prems(4) by simp
      show "\<not> attempt_succeeds P ctx (settle_calls ?l2 + i)"
        using Suc.prems(5) c2 by simp
    qed
    then show ?thesis using c by simp
  qed
qed

subsection \<open>Runs with a success callback that returns\<close>

lemma loop_first_success:
  assumes "Option.bind (asyncSettlement P) onSettlementSuccess = Some cbS"
      and "\<And>r. cbS r = None" and "n \<le> 2 ^ 53"
  shows "0 \<le> a \<Longrightarrow> a + int i \<le> n \<Longrightarrow> attempt_succeeds P ctx (settle_calls l + i) \<Longrightarrow>
         (\<And>j. j < i \<Longrightarrow> \<not> attempt_succeeds P ctx (settle_calls l + j)) \<Longrightarrow>
         settlePaymentInBackground_loop P ctx (Num (of_int n)) d (Num (of_int a)) l =
           Some (None,
             l @ backoff_schedule (FacilitatorSettle (payment ctx) (requirements ctx)) d a (Suc i)
               @ [OnSettlementSuccess (attempt_result P ctx (settle_calls l + i))])"
proof (induction i arbitrary: a l)
  case 0
  then show ?case
    using try_settle_success [OF _ assms(1) assms(2), of ctx l]
      loop_returned [of a n P ctx l _ d]
    by simp
next
  case (Suc i)
  let ?S = "FacilitatorSettle (payment ctx) (requirements ctx)"
  let ?l2 = "l @ [?S] @ [SetTimeout (js_mul d (Num (of_int a)))]"
  have f: "\<not> attempt_succeeds P ctx (settle_calls l)"
    using Suc.prems(4) [of 0] by simp
  have c: "settle_calls ?l2 = Suc (settle_calls l)"
    by (simp add: settle_calls_def)
  have lt: "a < n" using Suc.prems(2) by simp
  have r: "settlePaymentInBackground_loop P ctx (Num (of_int n)) d (Num (of_int a)) l
             = settlePaymentInBackground_loop P ctx (Num (of_int n)) d (Num (of_int (a + 1))) ?l2"
    using loop_retry [OF Suc.prems(1) lt assms(3)] try_settle_failure [OF f] by simp
  have "settlePaymentInBackground_loop P ctx (Num (of_int n)) d (Num (of_int (a + 1))) ?l2 =
          Some (None, ?l2 @ backoff_schedule ?S d (a + 1) (Suc i)
                   @ [OnSettlementSuccess (attempt_result P ctx (settle_calls ?l2 + i))])"
  proof (rule Suc.IH)
    show "0 \<le> a + 1" using Suc.prems(1) by simp
    show "a + 1 + int i \<le> n" using Suc.prems(2) by simp
    show "attempt_succeeds P ctx (settle_calls ?l2 + i)"
      using Suc.prems(3) c by simp
    show "\<not> attempt_succeeds P ctx (settle_calls ?l2 + j)" if "j < i" for j
      using Suc.prems(4) [of "Suc j"] that c by simp
  qed
  then show ?case using r c by simp
qed

lemma loop_all_fail:
  assumes "Option.bind (asyncSettlement P) onSettlementError = Some cbE"
      and "n \<le> 2 ^ 53"
  shows "0 \<le> a \<Longrightarrow> a + int i = n \<Longrightarrow>
         (\<And>j. j \<le> i \<Longrightarrow> \<not> attempt_succeeds P ctx (settle_calls l + j)) \<Longrightarrow>
         \<exists>u. settlePaymentInBackground_loop P ctx (Num (of_int n)) d (Num (of_int a)) l =
           Some (u,
             l @ backoff_schedule (FacilitatorSettle (payment ctx) (requirements ctx)) d a (Suc i)
               @ [OnSettlementError
                    (JsError (or_else (error (attempt_result P ctx (settle_calls l + i)))
                       ''Settlement failed''))])"
proof (induction i arbitrary: a l)
  case 0
  have f: "\<not> attempt_succeeds P ctx (settle_calls l)"
    using "0.prems"(3) [of 0] by simp
  have "a = n" using "0.prems"(2) by simp
  then show ?case
    using loop_last [OF try_settle_failure [OF f], of n d] assms(1) by simp
next
  case (Suc i)
  let ?S = "FacilitatorSettle (payment ctx) (requirements ctx)"
  let ?l2 = "l @ [?S] @ [SetTimeout (js_mul d (Num (of_int a)))]"
  have f: "\<not> attempt_succeeds P ctx (settle_calls l)"
    using Suc.prems(3) [of 0] by simp
  have c: "settle_calls ?l2 = Suc (settle_calls l)"
    by (simp add: settle_calls_def)
  have lt: "a < n" using Suc.prems(2) by simp
  have r: "settlePaymentInBackground_loop P ctx (Num (of_int n)) d (Num (of_int a)) l
             = settlePaymentInBackground_loop P ctx (Num (of_int n)) d (Num (of_int (a + 1))) ?l2"
    using loop_retry [OF Suc.prems(1) lt assms(2)] try_settle_failure [OF f] by simp
  have "\<exists>u. settlePaymentInBackground_loop P ctx (Num (of_int n)) d (Num (of_int (a + 1))) ?l2 =
          Some (u, ?l2 @ backoff_schedule ?S d (a + 1) (Suc i)
                   @ [OnSettlementError
                         (JsError (or_else (error (attempt_result P ctx (settle_calls ?l2 + i)))
                            ''Settlement failed''))])"
  proof (rule Suc.IH)
    show "0 \<le> a + 1" using Suc.prems(1) by simp
    show "a + 1 + int i = n" using Suc.prems(2) by simp
    show "\<not> attempt_succeeds P ctx (settle_calls ?l2 + j)" if "j \<le> i" for j
      using Suc.prems(3) [of "Suc j"] that c by simp
  qed
  then show ?case using r c by simp
qed

subsection \<open>Some runs\<close>

text \<open>
  The scenario of the specification: the facilitator fails twice (once by answering
  \<^verbatim>\<open>success: false\<close>, once by throwing), then succeeds; \<^verbatim>\<open>maxRetries = 3\<close>,
  \<^verbatim>\<open>retryDelay = 1000\<close>.
\<close>

lemma retry_run_example:
  "settlePaymentInBackground
     (test_processor ''base'' (Some (retry_options (Some (Num 3)) (Some (Num 1000))))
        (scripted [Inr declined, Inl JsOther, Inr settled])) test_context [] =
   Some (None,
    [FacilitatorSettle (payment test_context) (requirements test_context),
     SetTimeout (Num 1000),
     FacilitatorSettle (payment test_context) (requirements test_context),
     SetTimeout (Num 2000),
     FacilitatorSettle (payment test_context) (requirements test_context),
     OnSettlementSuccess
       \<lparr>success = True, transaction = Some ''0xabc'', s_network = Some ''base'',
        payer = Some ''0xpayer'', error = None\<rparr>])"
  by (simp add: settlePaymentInBackground_def settlePaymentInBackground_loop.simps
        try_settle_def settlePayment_def Let_def js_strict_eq_def fl_1000
        scripted_settle test_processor_fields retry_options_def settle_calls_def
        declined_def settled_def)

text \<open>
  \<^verbatim>\<open>maxRetries = 2.5\<close> and a facilitator that never succeeds: attempts 1 and 2 are
  made, \<^verbatim>\<open>2 === 2.5\<close> is false, so the second attempt is followed by a wait, and
  \<^verbatim>\<open>3 <= 2.5\<close> ends the loop without a callback.
\<close>

lemma fractional_retries_run:
  "settlePaymentInBackground
     (test_processor ''base'' (Some (retry_options (Some (Num (5 / 2))) (Some (Num 1000))))
        (scripted [])) test_context [] =
   Some (None,
    [FacilitatorSettle (payment test_context) (requirements test_context),
     SetTimeout (Num 1000),
     FacilitatorSettle (payment test_context) (requirements test_context),
     SetTimeout (Num 2000)])"
  by (simp add: settlePaymentInBackground_def settlePaymentInBackground_loop.simps
        try_settle_def settlePayment_def Let_def js_strict_eq_def fl_1000
        scripted_settle test_processor_fields retry_options_def settle_calls_def
        declined_def)

text \<open>
  A success callback that throws is caught by the loop's own \<^verbatim>\<open>catch\<close>: the
  settlement that succeeded is attempted again, the success callback fires once per
  attempt and the error callback fires at the end. A callback that is not configured
  does not fire.
\<close>

lemma throwing_success_callback_example:
  "settlePaymentInBackground
     (test_processor ''base''
        (Some ((retry_options (Some (Num 2)) (Some (Num 1000)))
                 \<lparr>onSettlementSuccess := Some (\<lambda>r. Some JsOther)\<rparr>))
        (scripted [Inr settled, Inr settled])) test_context [] =
    Some (None,
    [FacilitatorSettle (payment test_context) (requirements test_context),
     OnSettlementSuccess
       \<lparr>success = True, transaction = Some ''0xabc'', s_network = Some ''base'',
        payer = Some ''0xpayer'', error = None\<rparr>,
     SetTimeout (Num 1000),
     FacilitatorSettle (payment test_context) (requirements test_context),
     OnSettlementSuccess
       \<lparr>success = True, transaction = Some ''0xabc'', s_network = Some ''base'',
        payer = Some ''0xpayer'', error = None\<rparr>,
     OnSettlementError JsOther])"
  by (simp add: settlePaymentInBackground_def settlePaymentInBackground_loop.simps
        try_settle_def settlePayment_def Let_def js_strict_eq_def fl_1000
        scripted_settle test_processor_fields retry_options_def settle_calls_def
        settled_def)

lemma missing_error_callback_example:
  "settlePaymentInBackground
     (test_processor ''base''
        (Some ((retry_options (Some (Num 1)) (Some (Num 1000)))\<lparr>onSettlementError := None\<rparr>))
        (scripted [Inr declined])) test_context [] =
    Some (None, [FacilitatorSettle (payment test_context) (requirements test_context)])"
  by (simp add: settlePaymentInBackground_def settlePaymentInBackground_loop.simps
        try_settle_def settlePayment_def Let_def js_strict_eq_def
        scripted_settle test_processor_fields retry_options_def settle_calls_def
        declined_def)

lemma missing_success_callback_example:
  "settlePaymentInBackground
     (test_processor ''base''
        (Some ((retry_options (Some (Num 1)) (Some (Num 1000)))\<lparr>onSettlementSuccess := None\<rparr>))
        (scripted [Inr settled])) test_context [] =
    Some (None, [FacilitatorSettle (payment test_context) (requirements test_context)])"
  by (simp add: settlePaymentInBackground_def settlePaymentInBackground_loop.simps
        try_settle_def settlePayment_def Let_def js_strict_eq_def
        scripted_settle test_processor_fields retry_options_def settle_calls_def
        settled_def)

text \<open>
  A bound above \<open>2 ^ 53\<close>: the counter reaches \<open>2 ^ 53\<close> and stays there, so with
  a facilitator that never succeeds the loop does not end.
\<close>

lemma stalled_numeral: "fl 9007199254740993 = Num 9007199254740992"
  using attempt_counter_stalls by simp

lemma loop_stalled:
  assumes "\<And>i. \<not> attempt_succeeds P ctx i"
  shows "settlePaymentInBackground_loop P ctx (Num (2 ^ 53 + 2)) d (Num (2 ^ 53)) l = None"
proof (rule ccontr)
  assume "settlePaymentInBackground_loop P ctx (Num (2 ^ 53 + 2)) d (Num (2 ^ 53)) l \<noteq> None"
  then obtain y where
    y: "settlePaymentInBackground_loop P ctx (Num (2 ^ 53 + 2)) d (Num (2 ^ 53)) l = Some y"
    by blast
  have t: "try_settle P ctx l' =
             (Some (JsError (or_else (error (attempt_result P ctx (settle_calls l')))
                ''Settlement failed'')),
              l' @ [FacilitatorSettle (payment ctx) (requirements ctx)])" for l'
    using try_settle_failure [OF assms] .
  have "P' = P \<and> ctx' = ctx \<and> m = Num (2 ^ 53 + 2) \<and> a = Num (2 ^ 53) \<longrightarrow> False"
    if "settlePaymentInBackground_loop P' ctx' m d' a l' = Some y'" for P' ctx' m d' a l' y'
    apply (rule settlePaymentInBackground_loop.raw_induct
          [where P = "\<lambda>P' ctx' m d' a l' y'.
             P' = P \<and> ctx' = ctx \<and> m = Num (2 ^ 53 + 2) \<and> a = Num (2 ^ 53) \<longrightarrow> False",
           OF _ that])
    subgoal premises prems for f p c m d' a l' y'
    proof
      assume eq: "p = P \<and> c = ctx \<and> m = Num (2 ^ 53 + 2) \<and> a = Num (2 ^ 53)"
      have "f P ctx (Num (2 ^ 53 + 2)) d' (Num (2 ^ 53))
              (l' @ [FacilitatorSettle (payment ctx) (requirements ctx),
                     SetTimeout (js_mul d' (Num (2 ^ 53)))]) = Some y'"
        using prems(2) eq by (simp add: js_strict_eq_def stalled_numeral t)
      from prems(1) [OF this] show False by simp
    qed
    done
  then show False using y by blast
qed

lemma unbounded_retries_never_end:
  assumes "\<And>i. \<not> attempt_succeeds P ctx i" and "0 \<le> a" and "a \<le> 2 ^ 53"
  shows "settlePaymentInBackground_loop P ctx (Num (of_int (2 ^ 53 + 2))) d (Num (of_int a)) l
           = None"
  using assms(2,3)
proof (induction "nat (2 ^ 53 - a)" arbitrary: a l)
  case 0
  then have "a = 2 ^ 53" by simp
  then show ?case using loop_stalled [OF assms(1), of d l] by simp
next
  case (Suc k)
  have lt: "a < 2 ^ 53" using Suc.hyps(2) by simp
  let ?l2 = "l @ [FacilitatorSettle (payment ctx) (requirements ctx)]
               @ [SetTimeout (js_mul d (Num (of_int a)))]"
  have "settlePaymentInBackground_loop P ctx (Num (of_int (2 ^ 53 + 2))) d (Num (of_int a)) l
          = settlePaymentInBackground_loop P ctx (Num (of_int (2 ^ 53 + 2))) d
              (Num (of_int (a + 1))) ?l2"
    using loop_retry_below [OF Suc.prems(1) _ lt try_settle_failure [OF assms(1)],
        of "2 ^ 53 + 2" d l] lt
    by simp
  moreover have "settlePaymentInBackground_loop P ctx (Num (of_int (2 ^ 53 + 2))) d
              (Num (of_int (a + 1))) ?l2 = None"
    using Suc.hyps(1) [of "a + 1" ?l2] Suc.hyps(2) Suc.prems lt by simp
  ultimately show ?case by simp
qed

lemma unbounded_retries_example:
  "settlePaymentInBackground
     (test_processor ''base''
        (Some (retry_options (Some (Num (of_int (2 ^ 53 + 2)))) (Some (Num 1000))))
        (scripted [])) test_context l = None"
proof -
  let ?P = "test_processor ''base''
        (Some (retry_options (Some (Num (of_int (2 ^ 53 + 2)))) (Some (Num 1000)))) (scripted [])"
  have f: "\<not> attempt_succeeds ?P test_context i" for i
    by (simp add: attempt_succeeds_def test_processor_fields scripted_settle declined_def)
  show ?thesis
    using unbounded_retries_never_end [OF f, of 1 "Num 1000" l]
    by (simp add: settlePaymentInBackground_def test_processor_fields retry_options_def)
qed

subsection \<open>The callbacks of a run\<close>

text \<open>
  Claim C1, as stated: for every context and every \<^verbatim>\<open>maxRetries = n\<close>, settle is
  called at most \<open>n\<close> times and exactly one callback fires. This fails for
  \<^verbatim>\<open>maxRetries = 0\<close>: the loop body is never entered, so with asynchronous settlement
  enabled and both callbacks configured, no settle call is made and no callback fires.
\<close>

theorem background_no_callback_counterexample:
  "enabled (retry_options (Some (Num 0)) (Some (Num 1000))) \<and>
   settlePaymentInBackground
     (test_processor ''base'' (Some (retry_options (Some (Num 0)) (Some (Num 1000))))
        (scripted [Inr settled])) test_context [] = Some (None, []) \<and>
   success_callbacks [] + error_callbacks [] \<noteq> 1"
  by (simp add: settlePaymentInBackground_def settlePaymentInBackground_loop.simps
        test_processor_fields retry_options_def success_callbacks_def error_callbacks_def)

text \<open>
  Claim C1, amended: for every context handed to the retry loop with
  \<^verbatim>\<open>maxRetries = n\<close> (default 3) an integer, \<open>1 \<le> n \<le> 2 ^ 53\<close>, both callbacks
  configured and the success callback returning normally, the loop ends, settle is
  called at most \<open>n\<close> times and exactly one callback fires. If one of the first
  \<open>n\<close> settle calls succeeds, then with \<open>i\<close> the index of the first such call the
  run is \<open>i + 1\<close> attempts with the waits between them followed by
  \<^verbatim>\<open>onSettlementSuccess\<close> with that result, and nothing else: one success callback, no
  error callback. Otherwise the run is \<open>n\<close> attempts followed by
  \<^verbatim>\<open>onSettlementError\<close> with the last error: one error callback, no success callback.
  The runs above show what happens without each of the conditions.
\<close>

theorem background_exactly_one_callback:
  assumes "asyncSettlement P = Some a"
      and "nullish (maxRetries a) (Num 3) = Num (of_int n)" and "1 \<le> n" and "n \<le> 2 ^ 53"
      and "nullish (retryDelay a) (Num 1000) = d"
      and "onSettlementSuccess a = Some cbS" and "\<forall>r. cbS r = None"
      and "onSettlementError a = Some cbE"
  shows "\<exists>u tr. settlePaymentInBackground P ctx l = Some (u, l @ tr) \<and>
           settle_calls tr \<le> nat n \<and>
           success_callbacks tr + error_callbacks tr = 1 \<and>
           (if \<exists>i<nat n. attempt_succeeds P ctx (settle_calls l + i) then
              \<exists>i<nat n. attempt_succeeds P ctx (settle_calls l + i) \<and>
                (\<forall>j<i. \<not> attempt_succeeds P ctx (settle_calls l + j)) \<and>
                tr = backoff_schedule (FacilitatorSettle (payment ctx) (requirements ctx)) d 1
                       (Suc i)
                     @ [OnSettlementSuccess (attempt_result P ctx (settle_calls l + i))] \<and>
                settle_calls tr = Suc i \<and> success_callbacks tr = 1 \<and> error_callbacks tr = 0
            else
              tr = backoff_schedule (FacilitatorSettle (payment ctx) (requirements ctx)) d 1
                     (nat n)
                   @ [OnSettlementError
                        (JsError (or_else
                           (error (attempt_result P ctx (settle_calls l + (nat n - 1))))
                           ''Settlement failed''))] \<and>
              settle_calls tr = nat n \<and> success_callbacks tr = 0 \<and> error_callbacks tr = 1)"
proof -
  let ?S = "FacilitatorSettle (payment ctx) (requirements ctx)"
  let ?ok = "\<lambda>i. attempt_succeeds P ctx (settle_calls l + i)"
  have bS: "Option.bind (asyncSettlement P) onSettlementSuccess = Some cbS"
    and bE: "Option.bind (asyncSettlement P) onSettlementError = Some cbE"
    using assms by simp_all
  have run: "settlePaymentInBackground P ctx l
               = settlePaymentInBackground_loop P ctx (Num (of_int n)) d (Num (of_int 1)) l"
    using assms by (simp add: settlePaymentInBackground_def Let_def)
  show ?thesis
  proof (cases "\<exists>i<nat n. ?ok i")
    case True
    then obtain i0 where i0: "i0 < nat n" "?ok i0" by blast
    define i where "i = (LEAST i. ?ok i)"
    have ok: "?ok i" unfolding i_def using i0(2) by (rule LeastI)
    have le: "i \<le> i0" unfolding i_def using i0(2) by (rule Least_le)
    have first: "\<not> ?ok j" if "j < i" for j
      using that not_less_Least unfolding i_def by blast
    have bound: "1 + int i \<le> n" using le i0(1) by simp
    let ?tr = "backoff_schedule ?S d 1 (Suc i)
                 @ [OnSettlementSuccess (attempt_result P ctx (settle_calls l + i))]"
    have "settlePaymentInBackground P ctx l = Some (None, l @ ?tr)"
      using loop_first_success [OF bS _ assms(4), of 1 i ctx l d] assms(7) bound ok first run
      by simp
    moreover have "settle_calls ?tr = Suc i"
      by (simp add: schedule_counts) (simp add: settle_calls_def)
    moreover have "success_callbacks ?tr = 1"
      by (simp add: callbacks_append schedule_counts) (simp add: success_callbacks_def)
    moreover have "error_callbacks ?tr = 0"
      by (simp add: callbacks_append schedule_counts) (simp add: error_callbacks_def)
    ultimately show ?thesis using True ok first le i0(1)
      by (intro exI [of _ None] exI [of _ ?tr]) auto
  next
    case False
    define i where "i = nat n - 1"
    have bound: "1 + int i = n" using assms(3) by (simp add: i_def)
    have fail: "\<not> ?ok j" if "j \<le> i" for j
      using False that assms(3) by (auto simp: i_def)
    let ?tr = "backoff_schedule ?S d 1 (Suc i) @ [OnSettlementError
                        (JsError (or_else (error (attempt_result P ctx (settle_calls l + i)))
                           ''Settlement failed''))]"
    have n: "Suc i = nat n" using assms(3) by (simp add: i_def)
    obtain u where "settlePaymentInBackground P ctx l = Some (u, l @ ?tr)"
      using loop_all_fail [OF bE assms(4), of 1 i ctx l d] bound fail run by auto
    moreover have "settle_calls ?tr = Suc i"
      by (simp add: schedule_counts) (simp add: settle_calls_def)
    moreover have "success_callbacks ?tr = 0"
      by (simp add: callbacks_append schedule_counts) (simp add: success_callbacks_def)
    moreover have "error_callbacks ?tr = 1"
      by (simp add: callbacks_append schedule_counts) (simp add: error_callbacks_def)
    ultimately show ?thesis using False n i_def
      by (intro exI [of _ u] exI [of _ ?tr]) auto
  qed
qed

theorem background_exactly_one_callback_witness:
  "asyncSettlement (test_processor ''base'' (Some (retry_options (Some (Num 3)) (Some (Num 1000))))
       (scripted [Inr declined, Inl JsOther, Inr settled]))
     = Some (retry_options (Some (Num 3)) (Some (Num 1000))) \<and>
   nullish (maxRetries (retry_options (Some (Num 3)) (Some (Num 1000)))) (Num 3)
     = Num (of_int 3) \<and>
   (1::int) \<le> 3 \<and> (3::int) \<le> 2 ^ 53 \<and>
   onSettlementSuccess (retry_options (Some (Num 3)) (Some (Num 1000))) = Some (\<lambda>r. None) \<and>
   onSettlementError (retry_options (Some (Num 3)) (Some (Num 1000))) = Some (\<lambda>e. None) \<and>
   (\<exists>u tr. settlePaymentInBackground
           (test_processor ''base'' (Some (retry_options (Some (Num 3)) (Some (Num 1000))))
              (scripted [Inr declined, Inl JsOther, Inr settled])) test_context []
             = Some (u, tr) \<and>
         settle_calls tr \<le> nat 3 \<and> success_callbacks tr + error_callbacks tr = 1 \<and>
         settle_calls tr = 3 \<and> success_callbacks tr = 1 \<and> error_callbacks tr = 0)"
proof -
  let ?a = "retry_options (Some (Num 3)) (Some (Num 1000))"
  let ?P = "test_processor ''base'' (Some ?a) (scripted [Inr declined, Inl JsOther, Inr settled])"
  have h1: "asyncSettlement ?P = Some ?a" by (simp add: test_processor_fields)
  have h2: "nullish (maxRetries ?a) (Num 3) = Num (of_int 3)" by (simp add: retry_options_def)
  have h3: "(1::int) \<le> 3" by simp
  have h4: "(3::int) \<le> 2 ^ 53" by simp
  have h5: "nullish (retryDelay ?a) (Num 1000) = Num 1000" by (simp add: retry_options_def)
  have h6: "onSettlementSuccess ?a = Some (\<lambda>r. None)" by (simp add: retry_options_def)
  have h7: "\<forall>r::settlement_result. (\<lambda>r. None :: thrown option) r = None" by simp
  have h8: "onSettlementError ?a = Some (\<lambda>e. None)" by (simp add: retry_options_def)
  obtain u tr where tr: "settlePaymentInBackground ?P test_context [] = Some (u, [] @ tr)"
    "settle_calls tr \<le> nat 3" "success_callbacks tr + error_callbacks tr = 1"
    using background_exactly_one_callback [OF h1 h2 h3 h4 h5 h6 h7 h8, of test_context "[]"]
    by blast
  have "settle_calls tr = 3 \<and> success_callbacks tr = 1 \<and> error_callbacks tr = 0"
    using tr(1) unfolding retry_run_example
    by (auto simp: settle_calls_def success_callbacks_def error_callbacks_def)
  then show ?thesis using h1 h2 h6 h8 tr by auto
qed

subsection \<open>The waits between attempts\<close>

text \<open>
  Claim C2, as stated: the wait between a failed attempt number \<open>k\<close>
  (\<open>1 \<le> k < maxRetries\<close>) and attempt \<open>k + 1\<close> is \<open>retryDelay * k\<close>, and no wait
  follows the final attempt. This fails for \<^verbatim>\<open>maxRetries = 2.5\<close>: the second attempt
  is the last one, and a wait of 2000 follows it.
\<close>

theorem background_wait_after_last_attempt_counterexample:
  "maxRetries (retry_options (Some (Num (5 / 2))) (Some (Num 1000))) = Some (Num (5 / 2)) \<and>
   settlePaymentInBackground
     (test_processor ''base'' (Some (retry_options (Some (Num (5 / 2))) (Some (Num 1000))))
        (scripted [])) test_context [] =
   Some (None,
    [FacilitatorSettle (payment test_context) (requirements test_context),
     SetTimeout (Num 1000),
     FacilitatorSettle (payment test_context) (requirements test_context),
     SetTimeout (Num 2000)])"
  using fractional_retries_run by (simp add: retry_options_def)

text \<open>
  Claim C2, amended: in the retry loop with \<^verbatim>\<open>maxRetries = n\<close> an integer,
  \<open>n \<le> 2 ^ 53\<close>, the delay handed to \<^verbatim>\<open>setTimeout\<close> between a failed attempt
  number \<open>k\<close> (\<open>1 \<le> k < n\<close>) and attempt \<open>k + 1\<close> is the product
  \<^verbatim>\<open>retryDelay * k\<close> in double arithmetic, which is the exact product for an integer
  \<^verbatim>\<open>retryDelay\<close> with \<open>\<bar>retryDelay * k\<bar> \<le> 2 ^ 53\<close>, and no wait follows the final
  attempt. For every processor, context and log: the loop ends; the attempts and waits
  of the run, in order, are the schedule of the specification for the number of
  attempts made (attempt 1, wait \<open>retryDelay * 1\<close>, attempt 2, wait
  \<open>retryDelay * 2\<close>, and so on up to the last attempt); at most \<open>n\<close> attempts are
  made, at least one if \<open>n \<ge> 1\<close>; and an attempt with number \<open>i + 1 < n\<close> whose
  settle call did not succeed is followed by another attempt, hence by its wait.
\<close>

theorem background_backoff_schedule:
  assumes "nullish (Option.bind (asyncSettlement P) maxRetries) (Num 3) = Num (of_int n)"
      and "n \<le> 2 ^ 53"
      and "nullish (Option.bind (asyncSettlement P) retryDelay) (Num 1000) = d"
  shows "\<exists>u tr. settlePaymentInBackground P ctx l = Some (u, l @ tr) \<and>
        attempts_and_waits tr =
          backoff_schedule (FacilitatorSettle (payment ctx) (requirements ctx)) d 1
            (settle_calls tr) \<and>
        int (settle_calls tr) \<le> max 0 n \<and>
        (1 \<le> n \<longrightarrow> 1 \<le> settle_calls tr) \<and>
        (\<forall>i. i < settle_calls tr \<and> 1 + int i < n \<and>
              \<not> attempt_succeeds P ctx (settle_calls l + i)
              \<longrightarrow> Suc i < settle_calls tr) \<and>
        (\<forall>D k. d = Num (of_int D) \<and> \<bar>D * k\<bar> \<le> 2 ^ 53
              \<longrightarrow> js_mul d (Num (of_int k)) = Num (of_int (D * k)))"
proof -
  have run: "settlePaymentInBackground P ctx l
               = settlePaymentInBackground_loop P ctx (Num (of_int n)) d (Num (of_int 1)) l"
    using assms by (simp add: settlePaymentInBackground_def Let_def)
  obtain u tr where tr:
    "settlePaymentInBackground_loop P ctx (Num (of_int n)) d (Num (of_int 1)) l = Some (u, l @ tr)"
    "attempts_and_waits tr =
       backoff_schedule (FacilitatorSettle (payment ctx) (requirements ctx)) d 1 (settle_calls tr)"
    "int (settle_calls tr) \<le> max 0 (n + 1 - 1)" "1 \<le> n \<longrightarrow> 1 \<le> settle_calls tr"
    using loop_schedule [OF assms(2), of 1 P ctx d l] by auto
  have "Suc i < settle_calls tr"
    if "i < settle_calls tr" "1 + int i < n" "\<not> attempt_succeeds P ctx (settle_calls l + i)" for i
    using loop_progress [OF assms(2) _ tr(1) that] by simp
  moreover have "js_mul d (Num (of_int k)) = Num (of_int (D * k))"
    if "d = Num (of_int D)" "\<bar>D * k\<bar> \<le> 2 ^ 53" for D k
    using js_mul_exact [OF that(2)] that(1) by simp
  ultimately show ?thesis using run tr by (intro exI [of _ u] exI [of _ tr]) auto
qed

theorem background_backoff_schedule_witness:
  "nullish (Option.bind (asyncSettlement
       (test_processor ''base'' (Some (retry_options (Some (Num 3)) (Some (Num 1000))))
          (scripted [Inr declined, Inl JsOther, Inr settled]))) maxRetries) (Num 3)
     = Num (of_int 3) \<and> (3::int) \<le> 2 ^ 53 \<and>
   (\<exists>u tr. settlePaymentInBackground
              (test_processor ''base'' (Some (retry_options (Some (Num 3)) (Some (Num 1000))))
                 (scripted [Inr declined, Inl JsOther, Inr settled])) test_context []
             = Some (u, tr) \<and>
        0 < settle_calls tr \<and> 1 + int 0 < 3 \<and>
        \<not> attempt_succeeds
             (test_processor ''base'' (Some (retry_options (Some (Num 3)) (Some (Num 1000))))
                (scripted [Inr declined, Inl JsOther, Inr settled])) test_context 0 \<and>
        Suc 0 < settle_calls tr \<and>
        Num 1000 = Num (of_int 1000) \<and> \<bar>1000 * 2 :: int\<bar> \<le> 2 ^ 53 \<and>
        js_mul (Num 1000) (Num (of_int 2)) = Num (of_int (1000 * 2)) \<and>
        attempts_and_waits tr =
          [FacilitatorSettle (payment test_context) (requirements test_context),
           SetTimeout (Num 1000),
           FacilitatorSettle (payment test_context) (requirements test_context),
           SetTimeout (Num 2000),
           FacilitatorSettle (payment test_context) (requirements test_context)])"
proof -
  let ?a = "retry_options (Some (Num 3)) (Some (Num 1000))"
  let ?P = "test_processor ''base'' (Some ?a) (scripted [Inr declined, Inl JsOther, Inr settled])"
  let ?S = "FacilitatorSettle (payment test_context) (requirements test_context)"
  have n: "nullish (Option.bind (asyncSettlement ?P) maxRetries) (Num 3) = Num (of_int 3)"
    and d: "nullish (Option.bind (asyncSettlement ?P) retryDelay) (Num 1000) = Num 1000"
    by (simp_all add: test_processor_fields retry_options_def)
  have b: "(3::int) \<le> 2 ^ 53" by simp
  have f: "\<not> attempt_succeeds ?P test_context 0"
    by (simp add: attempt_succeeds_def test_processor_fields scripted_settle declined_def)
  obtain u tr where tr: "settlePaymentInBackground ?P test_context [] = Some (u, [] @ tr)"
    "attempts_and_waits tr = backoff_schedule ?S (Num 1000) 1 (settle_calls tr)"
    "(1::int) \<le> 3 \<longrightarrow> 1 \<le> settle_calls tr"
    "\<forall>i. i < settle_calls tr \<and> 1 + int i < 3 \<and>
         \<not> attempt_succeeds ?P test_context (settle_calls [] + i)
         \<longrightarrow> Suc i < settle_calls tr"
    "\<forall>D k. Num 1000 = Num (of_int D) \<and> \<bar>D * k\<bar> \<le> 2 ^ 53
         \<longrightarrow> js_mul (Num 1000) (Num (of_int k)) = Num (of_int (D * k))"
    using background_backoff_schedule [OF n b d, of test_context "[]"] by blast
  have p: "0 < settle_calls tr" using tr(3) by simp
  have q: "Suc 0 < settle_calls tr" using tr(4) p f by (auto simp: settle_calls_def)
  have x: "js_mul (Num 1000) (Num (of_int 2)) = Num (of_int (1000 * 2))"
    using tr(5) [rule_format, of 1000 2] by simp
  have y: "js_mul (Num 1000) (Num (of_int 1)) = Num (of_int (1000 * 1))"
    using tr(5) [rule_format, of 1000 1] by simp
  have "settle_calls tr = 3"
    using tr(1) unfolding retry_run_example by (auto simp: settle_calls_def)
  then have "attempts_and_waits tr = [?S, SetTimeout (Num 1000), ?S, SetTimeout (Num 2000), ?S]"
    using tr(2) x y by (simp add: numeral_3_eq_3)
  then show ?thesis using tr(1) p q f x n by simp
qed

subsection \<open>No retries configured\<close>

text \<open>
  Claim C10: with asynchronous settlement enabled and \<^verbatim>\<open>maxRetries\<close> configured as
  0, the background task returns the log as it was: the facilitator's settle capability
  is not called and neither callback is invoked. The same holds for the log that
  \<^verbatim>\<open>settlePaymentAsync\<close> returns.
\<close>

theorem zero_retries_no_attempt:
  assumes "asyncSettlement this = Some a" and "enabled a" and "maxRetries a = Some (Num 0)"
  shows "settlePaymentInBackground this context l = Some (None, l) \<and>
         snd (settlePaymentAsync this context resp l) = Some l \<and>
         map_option settle_calls (snd (settlePaymentAsync this context resp l))
           = Some (settle_calls l) \<and>
         map_option success_callbacks (snd (settlePaymentAsync this context resp l))
           = Some (success_callbacks l) \<and>
         map_option error_callbacks (snd (settlePaymentAsync this context resp l))
           = Some (error_callbacks l)"
  using assms
  by (simp add: settlePaymentInBackground_def settlePaymentAsync_def async_enabled_def
        settlePaymentInBackground_loop.simps)

theorem zero_retries_no_attempt_witness:
  "asyncSettlement (test_processor ''base'' (Some (retry_options (Some (Num 0)) (Some (Num 1000))))
       (scripted [Inr settled]))
     = Some (retry_options (Some (Num 0)) (Some (Num 1000))) \<and>
   enabled (retry_options (Some (Num 0)) (Some (Num 1000))) \<and>
   maxRetries (retry_options (Some (Num 0)) (Some (Num 1000))) = Some (Num 0) \<and>
   settlePaymentInBackground
     (test_processor ''base'' (Some (retry_options (Some (Num 0)) (Some (Num 1000))))
        (scripted [Inr settled])) test_context [] = Some (None, []) \<and>
   snd (settlePaymentAsync
     (test_processor ''base'' (Some (retry_options (Some (Num 0)) (Some (Num 1000))))
        (scripted [Inr settled])) test_context (test_response 200) []) = Some []"
proof -
  let ?a = "retry_options (Some (Num 0)) (Some (Num 1000))"
  let ?P = "test_processor ''base'' (Some ?a) (scripted [Inr settled])"
  have h1: "asyncSettlement ?P = Some ?a" by (simp add: test_processor_fields)
  have h2: "enabled ?a" by (simp add: retry_options_def)
  have h3: "maxRetries ?a = Some (Num 0)" by (simp add: retry_options_def)
  show ?thesis
    using h1 h2 h3 zero_retries_no_attempt [OF h1 h2 h3, of test_context "[]" "test_response 200"]
    by simp
qed

end
